theory Spec2Isabelle
  imports Main "HOL-Library.AList"
begin

section \<open>Data model (types/notes.ts)\<close>

text \<open>
  A \<open>Date\<close> is represented by its \<open>getTime()\<close> value, the number of milliseconds since
  the epoch. Optional properties (\<open>field?: T\<close>) are \<open>option\<close> values, \<open>None\<close> standing for
  \<open>undefined\<close>. The record of a note carries the properties that the persistence and
  synchronisation services read or write; the remaining optional properties of the
  interface (folderId, audioNotes, priority, dueDate, reminderDate, isStarred, isPinned,
  isArchived) have no column in the SQLite schema, are not part of the uploaded document
  and are left out.
\<close>

type_synonym Date = int

text \<open>
  A checklist item is a plain object, and \<open>JSON.stringify\<close> writes the properties of an
  object in the order in which the object got them. \<open>item_keys\<close> is that order, a
  permutation of \<open>id\<close>, \<open>text\<close>, \<open>completed\<close> and \<open>createdAt\<close>; copying an item
  (object spread, \<open>JSON.parse\<close> of its text) keeps it.
\<close>

record ChecklistItem =
  item_id :: string
  item_text :: string
  item_completed :: bool
  item_createdAt :: Date
  item_keys :: "string list"

definition item_values :: "ChecklistItem \<Rightarrow> string \<times> string \<times> bool \<times> Date" where
  \<comment> \<open>the value of an item, property by property\<close>
  "item_values item = (item_id item, item_text item, item_completed item, item_createdAt item)"

record RichTextSegment =
  seg_text :: string
  seg_bold :: "bool option"
  seg_italic :: "bool option"
  seg_highlight :: "bool option"
  seg_bulletPoint :: "bool option"

datatype NoteType = type_note | type_task

text \<open>
  \<open>NoteData\<close> is \<open>Omit<Note, 'id' | 'createdAt' | 'updatedAt' | 'deviceId'>\<close>, the argument
  type of \<open>saveNote\<close>; \<open>Note\<close> extends it with the four omitted properties.
\<close>

record NoteData =
  title :: string
  content :: string
  richContent :: "RichTextSegment list option"
  note_type :: NoteType
  completed :: "bool option"
  checklist :: "ChecklistItem list option"
  tags :: "string list"
  syncId :: "string option"
  lastSyncAt :: "Date option"
  conflictVersion :: "nat option"
  isDeleted :: "bool option"

record Note = NoteData +
  note_id :: string
  createdAt :: Date
  updatedAt :: Date
  deviceId :: string

text \<open>
  \<open>Partial<Note>\<close>: every property may be missing from the object. \<open>Absent\<close> is a key
  that is not in the object, \<open>Present v\<close> a key that is there with value \<open>v\<close>; for an
  optional property of \<open>Note\<close> the value may itself be \<open>undefined\<close> (\<open>Present None\<close>),
  which the object spread of the web path copies and the \<open>!== undefined\<close> tests of the
  native path skip.
\<close>

datatype 'a upd = Absent | Present 'a

record PartialNote =
  p_title :: "string upd"
  p_content :: "string upd"
  p_richContent :: "RichTextSegment list option upd"
  p_type :: "NoteType upd"
  p_completed :: "bool option upd"
  p_checklist :: "ChecklistItem list option upd"
  p_tags :: "string list upd"
  p_syncId :: "string option upd"
  p_lastSyncAt :: "Date option upd"
  p_conflictVersion :: "nat option upd"
  p_isDeleted :: "bool option upd"
  p_id :: "string upd"
  p_createdAt :: "Date upd"
  p_updatedAt :: "Date upd"
  p_deviceId :: "string upd"

definition no_updates :: PartialNote where
  "no_updates = \<lparr>p_title = Absent, p_content = Absent, p_richContent = Absent,
     p_type = Absent, p_completed = Absent, p_checklist = Absent, p_tags = Absent,
     p_syncId = Absent, p_lastSyncAt = Absent, p_conflictVersion = Absent,
     p_isDeleted = Absent, p_id = Absent, p_createdAt = Absent, p_updatedAt = Absent,
     p_deviceId = Absent\<rparr>"

record SyncConflict =
  noteId :: string
  localVersion :: Note
  remoteVersion :: Note
  conflictFields :: "string list"

record SyncStatus =
  isOnline :: bool
  isSyncing :: bool
  status_lastSyncAt :: "Date option"
  pendingChanges :: nat
  conflicts :: "SyncConflict list"

text \<open>The truthiness tests of the source on optional values.\<close>

definition truthy_bool :: "bool option \<Rightarrow> bool" where
  "truthy_bool b = (case b of None \<Rightarrow> False | Some v \<Rightarrow> v)"

definition or_empty :: "'a list option \<Rightarrow> 'a list" where
  "or_empty xs = (case xs of None \<Rightarrow> [] | Some v \<Rightarrow> v)"

definition or_zero :: "nat option \<Rightarrow> nat" where
  "or_zero n = (case n of None \<Rightarrow> 0 | Some v \<Rightarrow> v)"

text \<open>\<open>Array.prototype.findIndex\<close>, with \<open>None\<close> for the result \<open>-1\<close>.\<close>

fun findIndex :: "('a \<Rightarrow> bool) \<Rightarrow> 'a list \<Rightarrow> nat option" where
  "findIndex P [] = None"
| "findIndex P (x # xs) =
     (if P x then Some 0 else map_option Suc (findIndex P xs))"

section \<open>Numbers, dates and values as text\<close>

text \<open>
  \<open>Number.prototype.toString()\<close> on an integer, and \<open>parseInt\<close> without a radix: it skips
  leading white space (of which a \<open>string\<close> of bytes holds the ASCII ones), reads an
  optional sign, takes the digits as hexadecimal after a prefix \<open>0x\<close> or \<open>0X\<close> and as
  decimal otherwise, reads the longest run of digits and yields \<open>NaN\<close> (here \<open>None\<close>) when
  that run is empty.
\<close>

fun digits :: "nat \<Rightarrow> string" where
  "digits n = (if n < 10 then [''0123456789'' ! n]
               else digits (n div 10) @ [''0123456789'' ! (n mod 10)])"

declare digits.simps [simp del]

definition toString :: "int \<Rightarrow> string" where
  "toString i = (if i < 0 then CHR ''-'' # digits (nat (- i)) else digits (nat i))"

definition digit_val :: "nat \<Rightarrow> char \<Rightarrow> nat option" where
  "digit_val radix c =
     (case findIndex (\<lambda>d. d = c) ''0123456789abcdef'' of
        Some d \<Rightarrow> if d < radix then Some d else None
      | None \<Rightarrow>
          (case findIndex (\<lambda>d. d = c) ''ABCDEF'' of
             Some d \<Rightarrow> if d + 10 < radix then Some (d + 10) else None
           | None \<Rightarrow> None))"

fun digits_value :: "nat \<Rightarrow> nat \<Rightarrow> string \<Rightarrow> nat" where
  "digits_value radix acc [] = acc"
| "digits_value radix acc (c # cs) =
     (case digit_val radix c of
        None \<Rightarrow> acc
      | Some d \<Rightarrow> digits_value radix (radix * acc + d) cs)"

definition white_space :: "char \<Rightarrow> bool" where
  "white_space c =
     (c = CHR 0x09 \<or> c = CHR 0x0A \<or> c = CHR 0x0B \<or> c = CHR 0x0C \<or> c = CHR 0x0D
      \<or> c = CHR 0x20)"

definition parseInt :: "string \<Rightarrow> int option" where
  "parseInt s =
     (let s1 = dropWhile white_space s;
          neg = (case s1 of [] \<Rightarrow> False | c # cs \<Rightarrow> c = CHR ''-'');
          s2 = (case s1 of [] \<Rightarrow> []
                | c # cs \<Rightarrow> if c = CHR ''-'' \<or> c = CHR ''+'' then cs else s1);
          hex = (case s2 of
                   a # b # cs \<Rightarrow> a = CHR ''0'' \<and> (b = CHR ''x'' \<or> b = CHR ''X'')
                 | _ \<Rightarrow> False);
          radix = (if hex then 16 else 10);
          s3 = (if hex then drop 2 s2 else s2)
      in case s3 of [] \<Rightarrow> None
         | c # cs \<Rightarrow>
             (if digit_val radix c = None then None
              else if neg then Some (- int (digits_value radix 0 s3))
              else Some (int (digits_value radix 0 s3))))"

text \<open>
  \<open>Date.prototype.toISOString()\<close>, the text that \<open>JSON.stringify\<close> writes for a date:
  the day count since the epoch is turned into year, month and day of the proleptic
  Gregorian calendar, and a year outside 0 to 9999 is written with a sign and six digits.
\<close>

definition pad :: "nat \<Rightarrow> nat \<Rightarrow> string" where
  "pad k n = replicate (k - length (digits n)) (CHR ''0'') @ digits n"

definition civil :: "int \<Rightarrow> int \<times> nat \<times> nat" where
  "civil z =
     (let shifted = z + 719468;
          era = shifted div 146097;
          doe = shifted - era * 146097;
          yoe = (doe - doe div 1460 + doe div 36524 - doe div 146096) div 365;
          doy = doe - (365 * yoe + yoe div 4 - yoe div 100);
          mp = (5 * doy + 2) div 153;
          d = doy - (153 * mp + 2) div 5 + 1;
          m = (if mp < 10 then mp + 3 else mp - 9);
          y = yoe + era * 400 + (if m \<le> 2 then 1 else 0)
      in (y, nat m, nat d))"

definition toISOString :: "Date \<Rightarrow> string" where
  "toISOString t =
     (let ms = nat (t mod 86400000);
          (y, m, d) = civil (t div 86400000);
          year = (if 0 \<le> y \<and> y \<le> 9999 then pad 4 (nat y)
                  else (if y < 0 then CHR ''-'' else CHR ''+'') # pad 6 (nat \<bar>y\<bar>))
      in year @ ''-'' @ pad 2 m @ ''-'' @ pad 2 d @ ''T'' @
         pad 2 (ms div 3600000) @ '':'' @ pad 2 (ms div 60000 mod 60) @ '':'' @
         pad 2 (ms div 1000 mod 60) @ ''.'' @ pad 3 (ms mod 1000) @ ''Z'')"

text \<open>
  \<open>JSON.stringify\<close> on the values that \<open>getConflictFields\<close> gives it: an array of
  strings, and an array of checklist items or \<open>undefined\<close>, for which the result is
  \<open>undefined\<close> again (\<open>None\<close>). A string is written between double quotes, with the double
  quote, the backslash and the control characters escaped; an object is written property
  by property in the order of its keys.
\<close>

definition escape_char :: "char \<Rightarrow> string" where
  "escape_char c =
     (if c = CHR 0x22 then [CHR 0x5C, CHR 0x22]
      else if c = CHR 0x5C then [CHR 0x5C, CHR 0x5C]
      else if c = CHR 0x08 then [CHR 0x5C, CHR ''b'']
      else if c = CHR 0x09 then [CHR 0x5C, CHR ''t'']
      else if c = CHR 0x0A then [CHR 0x5C, CHR ''n'']
      else if c = CHR 0x0C then [CHR 0x5C, CHR ''f'']
      else if c = CHR 0x0D then [CHR 0x5C, CHR ''r'']
      else if (of_char c :: nat) < 32
      then CHR 0x5C # ''u00'' @ [''0123456789abcdef'' ! (of_char c div 16),
                                  ''0123456789abcdef'' ! (of_char c mod 16)]
      else [c])"

definition quote :: "string \<Rightarrow> string" where
  "quote s = CHR 0x22 # concat (map escape_char s) @ [CHR 0x22]"

fun join_comma :: "string list \<Rightarrow> string" where
  "join_comma [] = []"
| "join_comma [x] = x"
| "join_comma (x # y # rest) = x @ '','' @ join_comma (y # rest)"

definition stringify_tags :: "string list \<Rightarrow> string" where
  "stringify_tags xs = ''['' @ join_comma (map quote xs) @ '']''"

definition property_text :: "ChecklistItem \<Rightarrow> string \<Rightarrow> string option" where
  "property_text item k =
     (if k = ''id'' then Some (quote k @ '':'' @ quote (item_id item))
      else if k = ''text'' then Some (quote k @ '':'' @ quote (item_text item))
      else if k = ''completed''
      then Some (quote k @ '':'' @ (if item_completed item then ''true'' else ''false''))
      else if k = ''createdAt''
      then Some (quote k @ '':'' @ quote (toISOString (item_createdAt item)))
      else None)"

definition stringify_item :: "ChecklistItem \<Rightarrow> string" where
  "stringify_item item =
     ''{'' @ join_comma (List.map_filter (property_text item) (item_keys item)) @ ''}''"

definition stringify_checklist :: "ChecklistItem list option \<Rightarrow> string option" where
  "stringify_checklist c =
     map_option (\<lambda>items. ''['' @ join_comma (map stringify_item items) @ '']'') c"

section \<open>The local store (hooks/database-service.ts)\<close>

text \<open>
  The SQLite tables of the native path. A column holding JSON text (\<open>rich_content\<close>,
  \<open>tags\<close>) is represented by the value that \<open>JSON.parse\<close> gives back; an INTEGER column
  keeps its number; a nullable column is an \<open>option\<close>.
\<close>

record NoteRow =
  col_id :: string
  col_title :: string
  col_content :: string
  col_rich_content :: "RichTextSegment list option"
  col_type :: NoteType
  col_completed :: int
  col_tags :: "string list"
  col_created_at :: int
  col_updated_at :: int
  col_sync_id :: "string option"
  col_last_sync_at :: "int option"
  col_conflict_version :: nat
  col_is_deleted :: int
  col_device_id :: string

record ChecklistRow =
  ck_id :: string
  ck_note_id :: string
  ck_text :: string
  ck_completed :: int
  ck_created_at :: int

record MetadataRow =
  meta_key :: string
  meta_value :: string
  meta_updated_at :: int

record SQLiteDatabase =
  notes_table :: "NoteRow list"
  checklist_items :: "ChecklistRow list"
  sync_metadata :: "MetadataRow list"

record DatabaseService =
  db :: "SQLiteDatabase option"
  svc_deviceId :: "string option"
  isWeb :: bool

text \<open>
  The document written by \<open>uploadNote\<close> into the remote collection, with the server's
  \<open>lastModified\<close> time stamp. A checklist item of a document has the property order
  that the remote store gives back for it.
\<close>

record FirebaseNote =
  fb_id :: string
  fb_title :: string
  fb_content :: string
  fb_richContent :: "RichTextSegment list"
  fb_type :: NoteType
  fb_completed :: bool
  fb_checklist :: "ChecklistItem list"
  fb_tags :: "string list"
  fb_createdAt :: Date
  fb_updatedAt :: Date
  fb_isDeleted :: bool
  fb_deviceId :: string
  fb_conflictVersion :: nat
  fb_lastModified :: int

text \<open>
  The fields of the sync service; \<open>fs_db\<close> tells whether \<open>this.db\<close> holds the handle of
  the remote store (the listeners of the realtime channel are not part of the model).
\<close>

record FirebaseSyncService =
  fs_db :: bool
  isInitialized :: bool
  syncInProgress :: bool

text \<open>
  The world the two services run in: the services' own fields, the two AsyncStorage items
  of the web path (\<open>None\<close> when the item was never set), the remote collection (document
  id and document), the network state, and what the environment answers: the successive
  readings of the device clock, the successive values of
  \<open>Math.random().toString(36).substr(2, 9)\<close>, and for each request to the remote store
  whether it succeeds and the server's time stamp.
\<close>

record World =
  database :: DatabaseService
  notes_storage :: "Note list option"
  metadata_storage :: "(string \<times> string) list option"
  firebase :: FirebaseSyncService
  remote :: "(string \<times> FirebaseNote) list"
  connected :: bool
  clock :: "nat \<Rightarrow> int"
  clock_reads :: nat
  random :: "nat \<Rightarrow> string"
  random_reads :: nat
  request_ok :: "nat \<Rightarrow> bool"
  server_time :: "nat \<Rightarrow> int"
  requests :: nat

datatype error = DatabaseNotInitialized | FirebaseNotInitialized | ConstraintFailed
  | RequestFailed

type_synonym 'a io = "World \<Rightarrow> (error + 'a) \<times> World"

definition date_now :: "World \<Rightarrow> Date \<times> World" where
  "date_now w = (clock w (clock_reads w), w\<lparr>clock_reads := Suc (clock_reads w)\<rparr>)"

definition math_random :: "World \<Rightarrow> string \<times> World" where
  "math_random w = (random w (random_reads w), w\<lparr>random_reads := Suc (random_reads w)\<rparr>)"

definition set_db :: "SQLiteDatabase \<Rightarrow> World \<Rightarrow> World" where
  "set_db d w = w\<lparr>database := (database w)\<lparr>db := Some d\<rparr>\<rparr>"

subsection \<open>Reading notes\<close>

definition getChecklistItems :: "SQLiteDatabase \<Rightarrow> string \<Rightarrow> ChecklistItem list" where
  \<comment> \<open>SELECT * FROM checklist_items WHERE note_id = ? ORDER BY created_at ASC\<close>
  "getChecklistItems d noteId' =
     map (\<lambda>row. \<lparr>item_id = ck_id row, item_text = ck_text row,
                  item_completed = (ck_completed row = 1),
                  item_createdAt = ck_created_at row,
                  item_keys = [''id'', ''text'', ''completed'', ''createdAt'']\<rparr>)
       (sort_key ck_created_at (filter (\<lambda>row. ck_note_id row = noteId') (checklist_items d)))"

definition mapRowToNote :: "SQLiteDatabase \<Rightarrow> NoteRow \<Rightarrow> Note" where
  "mapRowToNote d row =
     (let items = getChecklistItems d (col_id row)
      in \<lparr>title = col_title row, content = col_content row,
          richContent = col_rich_content row,
          note_type = col_type row,
          completed = Some (col_completed row = 1),
          checklist = (if length items > 0 then Some items else None),
          tags = col_tags row,
          syncId = col_sync_id row,
          lastSyncAt = (case col_last_sync_at row of None \<Rightarrow> None
                        | Some t \<Rightarrow> if t = 0 then None else Some t),
          conflictVersion = Some (col_conflict_version row),
          isDeleted = Some (col_is_deleted row = 1),
          note_id = col_id row,
          createdAt = col_created_at row, updatedAt = col_updated_at row,
          deviceId = col_device_id row\<rparr>)"

definition getAllNotesWeb :: "World \<Rightarrow> Note list" where
  "getAllNotesWeb w =
     (case notes_storage w of None \<Rightarrow> []
      | Some ns \<Rightarrow>
          sort_key (\<lambda>n. - updatedAt n) (filter (\<lambda>n. \<not> truthy_bool (isDeleted n)) ns))"

definition getAllNotes :: "Note list io" where
  \<comment> \<open>SELECT * FROM notes WHERE is_deleted = 0 ORDER BY updated_at DESC, served from
      \<open>idx_notes_updated_at\<close> read backwards: rows with the same \<open>updated_at\<close> come out last
      inserted first\<close>
  "getAllNotes w =
     (if isWeb (database w) then (Inr (getAllNotesWeb w), w)
      else case db (database w) of
        None \<Rightarrow> (Inl DatabaseNotInitialized, w)
      | Some d \<Rightarrow>
          (Inr (map (mapRowToNote d)
                 (rev (sort_key col_updated_at
                    (filter (\<lambda>r. col_is_deleted r = 0) (notes_table d))))), w))"

definition getNoteByIdWeb :: "string \<Rightarrow> World \<Rightarrow> Note option" where
  "getNoteByIdWeb i w = find (\<lambda>n. note_id n = i) (getAllNotesWeb w)"

definition getNoteById :: "string \<Rightarrow> Note option io" where
  \<comment> \<open>SELECT * FROM notes WHERE id = ? AND is_deleted = 0\<close>
  "getNoteById i w =
     (if isWeb (database w) then (Inr (getNoteByIdWeb i w), w)
      else case db (database w) of
        None \<Rightarrow> (Inl DatabaseNotInitialized, w)
      | Some d \<Rightarrow>
          (case find (\<lambda>r. col_id r = i \<and> col_is_deleted r = 0) (notes_table d) of
             None \<Rightarrow> (Inr None, w)
           | Some r \<Rightarrow> (Inr (Some (mapRowToNote d r)), w)))"

definition getNotesForSyncWeb :: "World \<Rightarrow> Note list" where
  "getNotesForSyncWeb w =
     sort_key updatedAt
       (filter (\<lambda>n. case lastSyncAt n of None \<Rightarrow> True | Some t \<Rightarrow> updatedAt n > t)
          (getAllNotesWeb w))"

definition getNotesForSync :: "Note list io" where
  \<comment> \<open>SELECT * FROM notes WHERE last_sync_at IS NULL OR updated_at > last_sync_at
      ORDER BY updated_at ASC\<close>
  "getNotesForSync w =
     (if isWeb (database w) then (Inr (getNotesForSyncWeb w), w)
      else case db (database w) of
        None \<Rightarrow> (Inl DatabaseNotInitialized, w)
      | Some d \<Rightarrow>
          (Inr (map (mapRowToNote d)
                 (sort_key col_updated_at
                    (filter (\<lambda>r. case col_last_sync_at r of None \<Rightarrow> True
                                 | Some t \<Rightarrow> col_updated_at r > t)
                       (notes_table d)))), w))"

subsection \<open>Checklist rows\<close>

definition checklistRow :: "string \<Rightarrow> ChecklistItem \<Rightarrow> ChecklistRow" where
  \<comment> \<open>the values bound by the INSERT of \<open>saveChecklistItems\<close>\<close>
  "checklistRow noteId' item =
     \<lparr>ck_id = item_id item, ck_note_id = noteId', ck_text = item_text item,
      ck_completed = (if item_completed item then 1 else 0),
      ck_created_at = item_createdAt item\<rparr>"

fun saveChecklistItems :: "string \<Rightarrow> ChecklistItem list \<Rightarrow> unit io" where
  "saveChecklistItems noteId' [] w =
     (case db (database w) of None \<Rightarrow> (Inl DatabaseNotInitialized, w)
      | Some d \<Rightarrow> (Inr (), w))"
| "saveChecklistItems noteId' (item # items) w =
     (case db (database w) of None \<Rightarrow> (Inl DatabaseNotInitialized, w)
      | Some d \<Rightarrow>
          if item_id item \<in> set (map ck_id (checklist_items d))
          then (Inl ConstraintFailed, w)
          else saveChecklistItems noteId' items
                 (set_db (d\<lparr>checklist_items :=
                     checklist_items d @ [checklistRow noteId' item]\<rparr>) w))"

definition deleteChecklistItems :: "string \<Rightarrow> unit io" where
  "deleteChecklistItems noteId' w =
     (case db (database w) of None \<Rightarrow> (Inl DatabaseNotInitialized, w)
      | Some d \<Rightarrow>
          (Inr (), set_db (d\<lparr>checklist_items :=
                     filter (\<lambda>row. ck_note_id row \<noteq> noteId') (checklist_items d)\<rparr>) w))"

subsection \<open>Writing notes\<close>

definition falsy_to_null_string :: "string option \<Rightarrow> string option" where
  \<comment> \<open>\<open>newNote.syncId || null\<close>\<close>
  "falsy_to_null_string s = (case s of None \<Rightarrow> None
                             | Some v \<Rightarrow> if v = [] then None else Some v)"

definition falsy_to_null_time :: "Date option \<Rightarrow> int option" where
  \<comment> \<open>\<open>newNote.lastSyncAt?.getTime() || null\<close>\<close>
  "falsy_to_null_time t = (case t of None \<Rightarrow> None
                           | Some v \<Rightarrow> if v = 0 then None else Some v)"

definition noteRow :: "Note \<Rightarrow> NoteRow" where
  \<comment> \<open>the values bound by the INSERT of \<open>saveNote\<close>\<close>
  "noteRow n =
     \<lparr>col_id = note_id n, col_title = title n, col_content = content n,
      col_rich_content = Some (or_empty (richContent n)),
      col_type = note_type n,
      col_completed = (if truthy_bool (completed n) then 1 else 0),
      col_tags = tags n,
      col_created_at = createdAt n, col_updated_at = updatedAt n,
      col_sync_id = falsy_to_null_string (syncId n),
      col_last_sync_at = falsy_to_null_time (lastSyncAt n),
      col_conflict_version = or_zero (conflictVersion n),
      col_is_deleted = (if truthy_bool (isDeleted n) then 1 else 0),
      col_device_id = deviceId n\<rparr>"

definition saveNoteWeb :: "Note \<Rightarrow> Note io" where
  "saveNoteWeb n w =
     (let ns = (case notes_storage w of None \<Rightarrow> [] | Some xs \<Rightarrow> xs)
      in (Inr n, w\<lparr>notes_storage := Some (ns @ [n])\<rparr>))"

definition saveNote :: "NoteData \<Rightarrow> Note io" where
  "saveNote n w =
     (case svc_deviceId (database w) of
        None \<Rightarrow> (Inl DatabaseNotInitialized, w)
      | Some dev \<Rightarrow>
          if dev = [] then (Inl DatabaseNotInitialized, w)
          else
            let (now, w1) = date_now w;
                (t, w2) = date_now w1;
                (r, w3) = math_random w2;
                newNote = \<lparr>title = title n, content = content n,
                   richContent = richContent n, note_type = note_type n,
                   completed = completed n, checklist = checklist n, tags = tags n,
                   syncId = syncId n, lastSyncAt = lastSyncAt n,
                   conflictVersion = conflictVersion n, isDeleted = isDeleted n,
                   note_id = ''note_'' @ toString t @ ''_'' @ r,
                   createdAt = now, updatedAt = now, deviceId = dev\<rparr>
            in if isWeb (database w3) then saveNoteWeb newNote w3
               else case db (database w3) of
                 None \<Rightarrow> (Inl DatabaseNotInitialized, w3)
               | Some d \<Rightarrow>
                   if note_id newNote \<in> set (map col_id (notes_table d))
                   then (Inl ConstraintFailed, w3)
                   else
                     let w4 = set_db (d\<lparr>notes_table := notes_table d @ [noteRow newNote]\<rparr>) w3
                     in if length (or_empty (checklist newNote)) > 0
                        then (case saveChecklistItems (note_id newNote)
                                     (or_empty (checklist newNote)) w4 of
                                (Inl e, w5) \<Rightarrow> (Inl e, w5)
                              | (Inr u, w5) \<Rightarrow> (Inr newNote, w5))
                        else (Inr newNote, w4))"

definition update_row :: "PartialNote \<Rightarrow> int \<Rightarrow> NoteRow \<Rightarrow> NoteRow" where
  \<comment> \<open>the SET clause assembled by \<open>updateNote\<close>\<close>
  "update_row updates now r =
     r\<lparr>col_title := (case p_title updates of Present v \<Rightarrow> v | Absent \<Rightarrow> col_title r),
       col_content := (case p_content updates of Present v \<Rightarrow> v | Absent \<Rightarrow> col_content r),
       col_rich_content := (case p_richContent updates of Present (Some v) \<Rightarrow> Some v
                            | _ \<Rightarrow> col_rich_content r),
       col_type := (case p_type updates of Present v \<Rightarrow> v | Absent \<Rightarrow> col_type r),
       col_completed := (case p_completed updates of
                           Present (Some v) \<Rightarrow> (if v then 1 else 0)
                         | _ \<Rightarrow> col_completed r),
       col_tags := (case p_tags updates of Present v \<Rightarrow> v | Absent \<Rightarrow> col_tags r),
       col_updated_at := now\<rparr>"

definition pick :: "'a upd \<Rightarrow> 'a \<Rightarrow> 'a" where
  "pick u old = (case u of Absent \<Rightarrow> old | Present v \<Rightarrow> v)"

definition spread_updates :: "Note \<Rightarrow> PartialNote \<Rightarrow> Date \<Rightarrow> Note" where
  \<comment> \<open>\<open>{ ...notes[noteIndex], ...updates, updatedAt: now }\<close>\<close>
  "spread_updates n updates now =
     \<lparr>title = pick (p_title updates) (title n),
      content = pick (p_content updates) (content n),
      richContent = pick (p_richContent updates) (richContent n),
      note_type = pick (p_type updates) (note_type n),
      completed = pick (p_completed updates) (completed n),
      checklist = pick (p_checklist updates) (checklist n),
      tags = pick (p_tags updates) (tags n),
      syncId = pick (p_syncId updates) (syncId n),
      lastSyncAt = pick (p_lastSyncAt updates) (lastSyncAt n),
      conflictVersion = pick (p_conflictVersion updates) (conflictVersion n),
      isDeleted = pick (p_isDeleted updates) (isDeleted n),
      note_id = pick (p_id updates) (note_id n),
      createdAt = pick (p_createdAt updates) (createdAt n),
      updatedAt = now,
      deviceId = pick (p_deviceId updates) (deviceId n)\<rparr>"

definition updateNoteWeb :: "string \<Rightarrow> PartialNote \<Rightarrow> unit io" where
  "updateNoteWeb i updates w =
     (let ns = (case notes_storage w of None \<Rightarrow> [] | Some xs \<Rightarrow> xs)
      in case findIndex (\<lambda>n. note_id n = i) ns of
           None \<Rightarrow> (Inr (), w)
         | Some k \<Rightarrow>
             let (now, w1) = date_now w
             in (Inr (), w1\<lparr>notes_storage :=
                        Some (ns[k := spread_updates (ns ! k) updates now])\<rparr>))"

definition updateNote :: "string \<Rightarrow> PartialNote \<Rightarrow> unit io" where
  "updateNote i updates w =
     (if isWeb (database w) then updateNoteWeb i updates w
      else case db (database w) of
        None \<Rightarrow> (Inl DatabaseNotInitialized, w)
      | Some d \<Rightarrow>
          let (now, w1) = date_now w;
              w2 = set_db (d\<lparr>notes_table :=
                     map (\<lambda>r. if col_id r = i then update_row updates now r else r)
                       (notes_table d)\<rparr>) w1
          in case p_checklist updates of
               Present (Some items) \<Rightarrow>
                 (case deleteChecklistItems i w2 of
                    (Inl e, w3) \<Rightarrow> (Inl e, w3)
                  | (Inr u, w3) \<Rightarrow>
                      if length items > 0 then saveChecklistItems i items w3
                      else (Inr (), w3))
             | _ \<Rightarrow> (Inr (), w2))"

definition deleteNoteWeb :: "string \<Rightarrow> unit io" where
  "deleteNoteWeb i w =
     (let ns = (case notes_storage w of None \<Rightarrow> [] | Some xs \<Rightarrow> xs)
      in case findIndex (\<lambda>n. note_id n = i) ns of
           None \<Rightarrow> (Inr (), w)
         | Some k \<Rightarrow>
             let (now, w1) = date_now w
             in (Inr (), w1\<lparr>notes_storage :=
                        Some (ns[k := (ns ! k)\<lparr>isDeleted := Some True, updatedAt := now\<rparr>])\<rparr>))"

definition deleteNote :: "string \<Rightarrow> unit io" where
  \<comment> \<open>UPDATE notes SET is_deleted = 1, updated_at = ? WHERE id = ?\<close>
  "deleteNote i w =
     (if isWeb (database w) then deleteNoteWeb i w
      else case db (database w) of
        None \<Rightarrow> (Inl DatabaseNotInitialized, w)
      | Some d \<Rightarrow>
          let (now, w1) = date_now w
          in (Inr (), set_db (d\<lparr>notes_table :=
                 map (\<lambda>r. if col_id r = i then r\<lparr>col_is_deleted := 1, col_updated_at := now\<rparr>
                          else r) (notes_table d)\<rparr>) w1))"

definition markAsSyncedWeb :: "string \<Rightarrow> string \<Rightarrow> unit io" where
  "markAsSyncedWeb noteId' syncId' w =
     (let ns = (case notes_storage w of None \<Rightarrow> [] | Some xs \<Rightarrow> xs)
      in case findIndex (\<lambda>n. note_id n = noteId') ns of
           None \<Rightarrow> (Inr (), w)
         | Some k \<Rightarrow>
             let (now, w1) = date_now w
             in (Inr (), w1\<lparr>notes_storage :=
                        Some (ns[k := (ns ! k)\<lparr>syncId := Some syncId',
                                                lastSyncAt := Some now\<rparr>])\<rparr>))"

definition markAsSynced :: "string \<Rightarrow> string \<Rightarrow> unit io" where
  \<comment> \<open>UPDATE notes SET sync_id = ?, last_sync_at = ? WHERE id = ?\<close>
  "markAsSynced noteId' syncId' w =
     (if isWeb (database w) then markAsSyncedWeb noteId' syncId' w
      else case db (database w) of
        None \<Rightarrow> (Inl DatabaseNotInitialized, w)
      | Some d \<Rightarrow>
          let (now, w1) = date_now w
          in (Inr (), set_db (d\<lparr>notes_table :=
                 map (\<lambda>r. if col_id r = noteId'
                          then r\<lparr>col_sync_id := Some syncId', col_last_sync_at := Some now\<rparr>
                          else r) (notes_table d)\<rparr>) w1))"

subsection \<open>Network state and sync metadata\<close>

definition isOnline_db :: "World \<Rightarrow> bool" where
  \<comment> \<open>\<open>databaseService.isOnline()\<close>: \<open>navigator.onLine\<close>, or the network state with
      every failure of the query read as offline\<close>
  "isOnline_db w = connected w"

definition getSyncMetadataWeb :: "string \<Rightarrow> World \<Rightarrow> string option" where
  \<comment> \<open>\<open>metadata[key] || null\<close>\<close>
  "getSyncMetadataWeb k w =
     (case map_of (case metadata_storage w of None \<Rightarrow> [] | Some m \<Rightarrow> m) k of
        None \<Rightarrow> None
      | Some v \<Rightarrow> if v = [] then None else Some v)"

definition getSyncMetadata :: "string \<Rightarrow> string option io" where
  \<comment> \<open>SELECT value FROM sync_metadata WHERE key = ?\<close>
  "getSyncMetadata k w =
     (if isWeb (database w) then (Inr (getSyncMetadataWeb k w), w)
      else case db (database w) of
        None \<Rightarrow> (Inl DatabaseNotInitialized, w)
      | Some d \<Rightarrow>
          (Inr (map_option meta_value (find (\<lambda>r. meta_key r = k) (sync_metadata d))), w))"

definition setSyncMetadataWeb :: "string \<Rightarrow> string \<Rightarrow> unit io" where
  "setSyncMetadataWeb k v w =
     (let m = (case metadata_storage w of None \<Rightarrow> [] | Some xs \<Rightarrow> xs)
      in (Inr (), w\<lparr>metadata_storage := Some (AList.update k v m)\<rparr>))"

definition setSyncMetadata :: "string \<Rightarrow> string \<Rightarrow> unit io" where
  \<comment> \<open>INSERT OR REPLACE INTO sync_metadata (key, value, updated_at) VALUES (?, ?, ?)\<close>
  "setSyncMetadata k v w =
     (if isWeb (database w) then setSyncMetadataWeb k v w
      else case db (database w) of
        None \<Rightarrow> (Inl DatabaseNotInitialized, w)
      | Some d \<Rightarrow>
          let (now, w1) = date_now w
          in (Inr (), set_db (d\<lparr>sync_metadata :=
                 filter (\<lambda>r. meta_key r \<noteq> k) (sync_metadata d) @
                 [\<lparr>meta_key = k, meta_value = v, meta_updated_at = now\<rparr>]\<rparr>) w1))"

section \<open>The sync service (hooks/firebase-sync-service.ts)\<close>

text \<open>
  A request to the remote store takes the next answer of the environment: it fails with
  \<open>RequestFailed\<close>, or it succeeds and, for a write, the server stamps \<open>lastModified\<close>.
  \<open>setDoc\<close> with \<open>merge: true\<close> writes every property of the uploaded object, so the
  stored document is the uploaded one.
\<close>

definition or_id :: "string option \<Rightarrow> string \<Rightarrow> string" where
  \<comment> \<open>\<open>note.syncId || note.id\<close>\<close>
  "or_id s i = (case s of None \<Rightarrow> i | Some v \<Rightarrow> if v = [] then i else v)"

definition firebaseNote :: "Note \<Rightarrow> int \<Rightarrow> FirebaseNote" where
  "firebaseNote n stamp =
     \<lparr>fb_id = note_id n, fb_title = title n, fb_content = content n,
      fb_richContent = or_empty (richContent n),
      fb_type = note_type n,
      fb_completed = truthy_bool (completed n),
      fb_checklist = or_empty (checklist n),
      fb_tags = tags n,
      fb_createdAt = createdAt n, fb_updatedAt = updatedAt n,
      fb_isDeleted = truthy_bool (isDeleted n),
      fb_deviceId = deviceId n,
      fb_conflictVersion = or_zero (conflictVersion n),
      fb_lastModified = stamp\<rparr>"

definition uploadNote :: "Note \<Rightarrow> unit io" where
  "uploadNote n w =
     (if \<not> fs_db (firebase w) then (Inl FirebaseNotInitialized, w)
      else
        let k = requests w; w1 = w\<lparr>requests := Suc k\<rparr>
        in if request_ok w k
           then (Inr (), w1\<lparr>remote := AList.update (or_id (syncId n) (note_id n))
                                    (firebaseNote n (server_time w k)) (remote w)\<rparr>)
           else (Inl RequestFailed, w1))"

definition mapFirebaseToNote :: "FirebaseNote \<Rightarrow> World \<Rightarrow> Note \<times> World" where
  \<comment> \<open>every property of an uploaded document is there, so of the fallbacks
      (\<open>|| []\<close>, \<open>|| 0\<close>, \<open>|| false\<close>, \<open>|| new Date()\<close>) none applies; the clock is read
      once, for \<open>lastSyncAt\<close>\<close>
  "mapFirebaseToNote data w =
     (let (now, w1) = date_now w
      in (\<lparr>title = fb_title data, content = fb_content data,
           richContent = Some (fb_richContent data),
           note_type = fb_type data,
           completed = Some (fb_completed data),
           checklist = Some (fb_checklist data),
           tags = fb_tags data,
           syncId = Some (fb_id data),
           lastSyncAt = Some now,
           conflictVersion = Some (fb_conflictVersion data),
           isDeleted = Some (fb_isDeleted data),
           note_id = fb_id data,
           createdAt = fb_createdAt data, updatedAt = fb_updatedAt data,
           deviceId = fb_deviceId data\<rparr>, w1))"

definition saveRemoteNote :: "Note \<Rightarrow> unit io" where
  "saveRemoteNote n w =
     (case getNoteById (note_id n) w of
        (Inl e, w1) \<Rightarrow> (Inl e, w1)
      | (Inr (Some existingNote), w1) \<Rightarrow>
          let (now, w2) = date_now w1
          in updateNote (note_id n)
               (no_updates\<lparr>p_title := Present (title n), p_content := Present (content n),
                  p_richContent := Present (richContent n),
                  p_type := Present (note_type n),
                  p_completed := Present (completed n),
                  p_checklist := Present (checklist n),
                  p_tags := Present (tags n),
                  p_syncId := Present (syncId n),
                  p_lastSyncAt := Present (Some now),
                  p_isDeleted := Present (isDeleted n)\<rparr>) w2
      | (Inr None, w1) \<Rightarrow>
          let (now, w2) = date_now w1
          in case saveNote \<lparr>title = title n, content = content n,
                    richContent = richContent n, note_type = note_type n,
                    completed = completed n, checklist = checklist n, tags = tags n,
                    syncId = syncId n, lastSyncAt = Some now,
                    conflictVersion = None, isDeleted = isDeleted n\<rparr> w2 of
               (Inl e, w3) \<Rightarrow> (Inl e, w3)
             | (Inr saved, w3) \<Rightarrow> (Inr (), w3))"

definition getConflictFields :: "Note \<Rightarrow> Note \<Rightarrow> string list" where
  \<comment> \<open>tags and checklist are compared through their \<open>JSON.stringify\<close> texts\<close>
  "getConflictFields local remote' =
     (if title local \<noteq> title remote' then [''title''] else []) @
     (if content local \<noteq> content remote' then [''content''] else []) @
     (if completed local \<noteq> completed remote' then [''completed''] else []) @
     (if stringify_tags (tags local) \<noteq> stringify_tags (tags remote')
      then [''tags''] else []) @
     (if stringify_checklist (checklist local) \<noteq> stringify_checklist (checklist remote')
      then [''checklist''] else [])"

definition resolveConflict :: "Note \<Rightarrow> Note \<Rightarrow> SyncConflict option io" where
  "resolveConflict localNote remoteNote w =
     (if updatedAt remoteNote > updatedAt localNote then
        (case saveRemoteNote remoteNote w of
           (Inl e, w1) \<Rightarrow> (Inl e, w1)
         | (Inr u, w1) \<Rightarrow> (Inr None, w1))
      else if updatedAt localNote > updatedAt remoteNote then
        (case uploadNote localNote w of
           (Inl e, w1) \<Rightarrow> (Inl e, w1)
         | (Inr u, w1) \<Rightarrow> (Inr None, w1))
      else
        let fields = getConflictFields localNote remoteNote
        in if length fields > 0
           then (Inr (Some \<lparr>noteId = note_id localNote, localVersion = localNote,
                             remoteVersion = remoteNote, conflictFields = fields\<rparr>), w)
           else (Inr None, w))"

subsection \<open>Pulling remote changes\<close>

definition query_notes :: "int option \<Rightarrow> nat \<Rightarrow> World \<Rightarrow> FirebaseNote list" where
  \<comment> \<open>\<open>where('lastModified', '>', since)\<close> when a watermark is given,
      \<open>orderBy('lastModified', 'desc')\<close>, \<open>limit(n)\<close>\<close>
  "query_notes since n w =
     take n (sort_key (\<lambda>d. - fb_lastModified d)
       (filter (\<lambda>d. case since of None \<Rightarrow> True | Some t \<Rightarrow> fb_lastModified d > t)
          (map snd (remote w))))"

definition getDocs :: "int option \<Rightarrow> nat \<Rightarrow> FirebaseNote list io" where
  "getDocs since n w =
     (let k = requests w; w1 = w\<lparr>requests := Suc k\<rparr>
      in if request_ok w k then (Inr (query_notes since n w), w1)
         else (Inl RequestFailed, w1))"

definition watermark :: "string option \<Rightarrow> error + int option" where
  \<comment> \<open>\<open>if (lastSyncTime) new Date(parseInt(lastSyncTime))\<close>; a text that is not a number
      gives an invalid date, which the query does not accept\<close>
  "watermark lastSyncTime =
     (case lastSyncTime of
        None \<Rightarrow> Inr None
      | Some v \<Rightarrow>
          if v = [] then Inr None
          else (case parseInt v of None \<Rightarrow> Inl RequestFailed | Some t \<Rightarrow> Inr (Some t)))"

definition download_step :: "FirebaseNote \<Rightarrow> SyncConflict option io" where
  \<comment> \<open>the body of the loop over \<open>snapshot.docs\<close> in \<open>downloadRemoteChanges\<close>\<close>
  "download_step data w =
     (let (remoteNote, w1) = mapFirebaseToNote data w
      in case getNoteById (note_id remoteNote) w1 of
           (Inl e, w2) \<Rightarrow> (Inl e, w2)
         | (Inr None, w2) \<Rightarrow>
             (case saveRemoteNote remoteNote w2 of
                (Inl e, w3) \<Rightarrow> (Inl e, w3)
              | (Inr u, w3) \<Rightarrow> (Inr None, w3))
         | (Inr (Some localNote), w2) \<Rightarrow>
             if updatedAt localNote \<noteq> updatedAt remoteNote
             then resolveConflict localNote remoteNote w2
             else (Inr None, w2))"

fun download_loop :: "FirebaseNote list \<Rightarrow> SyncConflict list \<Rightarrow> SyncConflict list io" where
  "download_loop [] conflicts' w = (Inr conflicts', w)"
| "download_loop (data # rest) conflicts' w =
     (case download_step data w of
        (Inl e, w1) \<Rightarrow> (Inl e, w1)
      | (Inr None, w1) \<Rightarrow> download_loop rest conflicts' w1
      | (Inr (Some conflict), w1) \<Rightarrow> download_loop rest (conflicts' @ [conflict]) w1)"

definition downloadRemoteChanges :: "SyncConflict list io" where
  "downloadRemoteChanges w =
     (if \<not> fs_db (firebase w) then (Inr [], w)
      else case getSyncMetadata ''last_sync_time'' w of
        (Inl e, w1) \<Rightarrow> (Inl e, w1)
      | (Inr lastSyncTime, w1) \<Rightarrow>
          (case watermark lastSyncTime of
             Inl e \<Rightarrow> (Inl e, w1)
           | Inr since \<Rightarrow>
               (case getDocs since 100 w1 of
                  (Inl e, w2) \<Rightarrow> (Inl e, w2)
                | (Inr docs, w2) \<Rightarrow>
                    (case download_loop docs [] w2 of
                       (Inl e, w3) \<Rightarrow> (Inl e, w3)
                     | (Inr conflicts', w3) \<Rightarrow>
                         let (now, w4) = date_now w3
                         in case setSyncMetadata ''last_sync_time'' (toString now) w4 of
                              (Inl e, w5) \<Rightarrow> (Inl e, w5)
                            | (Inr u, w5) \<Rightarrow> (Inr conflicts', w5)))))"

subsection \<open>One sync pass\<close>

record SyncResult =
  success :: bool
  result_conflicts :: "SyncConflict list"

fun upload_loop :: "Note list \<Rightarrow> World \<Rightarrow> World" where
  \<comment> \<open>the loop over \<open>localNotes\<close>; a failure of the upload or of \<open>markAsSynced\<close> is
      caught and the loop goes on\<close>
  "upload_loop [] w = w"
| "upload_loop (n # ns) w =
     (case uploadNote n w of
        (Inl e, w1) \<Rightarrow> upload_loop ns w1
      | (Inr u, w1) \<Rightarrow>
          upload_loop ns (snd (markAsSynced (note_id n) (or_id (syncId n) (note_id n)) w1)))"

definition sync_body :: "SyncConflict list io" where
  \<comment> \<open>the \<open>try\<close> block of \<open>syncNotes\<close>\<close>
  "sync_body w =
     (case getNotesForSync w of
        (Inl e, w1) \<Rightarrow> (Inl e, w1)
      | (Inr localNotes, w1) \<Rightarrow> downloadRemoteChanges (upload_loop localNotes w1))"

definition set_syncInProgress :: "bool \<Rightarrow> World \<Rightarrow> World" where
  "set_syncInProgress b w = w\<lparr>firebase := (firebase w)\<lparr>syncInProgress := b\<rparr>\<rparr>"

definition syncNotes :: "World \<Rightarrow> SyncResult \<times> World" where
  "syncNotes w =
     (if \<not> isInitialized (firebase w) \<or> syncInProgress (firebase w)
      then (\<lparr>success = False, result_conflicts = []\<rparr>, w)
      else if \<not> isOnline_db w
      then (\<lparr>success = False, result_conflicts = []\<rparr>, w)
      else
        case sync_body (set_syncInProgress True w) of
          (Inr remoteConflicts, w1) \<Rightarrow>
            (\<lparr>success = True, result_conflicts = remoteConflicts\<rparr>,
             set_syncInProgress False w1)
        | (Inl e, w1) \<Rightarrow>
            (\<lparr>success = False, result_conflicts = []\<rparr>, set_syncInProgress False w1))"

subsection \<open>Calls of \<open>syncNotes\<close> that overlap\<close>

text \<open>
  \<open>syncNotes\<close> is an async function: what stands between two \<open>await\<close>s runs without
  interruption, and at an \<open>await\<close> other callbacks and other calls run. A call is cut at
  its first two suspension points: the test of the flag up to \<open>await isOnline()\<close>; then
  the answer of \<open>isOnline\<close>, the assignment \<open>syncInProgress = true\<close> and the entry into
  the \<open>try\<close> block up to its first \<open>await\<close>; then the rest of the \<open>try\<close> block with
  \<open>catch\<close> and \<open>finally\<close>, which is kept in one piece here. The network state is not
  changed by any operation of the model, so the answer of \<open>isOnline\<close> is read when the
  call resumes. A schedule names, step by step, the call that runs its next piece.
\<close>

datatype SyncCall = AtGuard | AwaitingOnline | InPass | Returned SyncResult

definition syncNotes_guard :: "World \<Rightarrow> SyncCall" where
  "syncNotes_guard w =
     (if \<not> isInitialized (firebase w) \<or> syncInProgress (firebase w)
      then Returned \<lparr>success = False, result_conflicts = []\<rparr>
      else AwaitingOnline)"

definition syncNotes_online :: "World \<Rightarrow> SyncCall \<times> World" where
  "syncNotes_online w =
     (if \<not> isOnline_db w
      then (Returned \<lparr>success = False, result_conflicts = []\<rparr>, w)
      else (InPass, set_syncInProgress True w))"

definition syncNotes_pass :: "World \<Rightarrow> SyncResult \<times> World" where
  "syncNotes_pass w =
     (case sync_body w of
        (Inr remoteConflicts, w1) \<Rightarrow>
          (\<lparr>success = True, result_conflicts = remoteConflicts\<rparr>,
           set_syncInProgress False w1)
      | (Inl e, w1) \<Rightarrow>
          (\<lparr>success = False, result_conflicts = []\<rparr>, set_syncInProgress False w1))"

definition call_step :: "SyncCall \<Rightarrow> World \<Rightarrow> SyncCall \<times> World" where
  "call_step c w =
     (case c of
        AtGuard \<Rightarrow> (syncNotes_guard w, w)
      | AwaitingOnline \<Rightarrow> syncNotes_online w
      | InPass \<Rightarrow> (case syncNotes_pass w of (r, w1) \<Rightarrow> (Returned r, w1))
      | Returned r \<Rightarrow> (Returned r, w))"

fun run_schedule :: "nat list \<Rightarrow> SyncCall list \<times> World \<Rightarrow> SyncCall list \<times> World" where
  "run_schedule [] cw = cw"
| "run_schedule (i # rest) (calls, w) =
     (if i < length calls
      then (case call_step (calls ! i) w of
              (c, w1) \<Rightarrow> run_schedule rest (calls[i := c], w1))
      else run_schedule rest (calls, w))"

subsection \<open>Realtime listener\<close>

datatype ChangeType = added | modified | removed

text \<open>
  The callback registered by \<open>startRealtimeSync\<close>, run on each snapshot over
  \<open>snapshot.docChanges()\<close>. The \<open>onUpdate\<close> callback it calls after a save reloads the
  notes shown by the user interface and is not part of the stores.
\<close>

definition realtime_step :: "ChangeType \<Rightarrow> FirebaseNote \<Rightarrow> unit io" where
  "realtime_step change data w =
     (if change = added \<or> change = modified then
        let (remoteNote, w1) = mapFirebaseToNote data w
        in case getNoteById (note_id remoteNote) w1 of
             (Inl e, w2) \<Rightarrow> (Inl e, w2)
           | (Inr None, w2) \<Rightarrow> saveRemoteNote remoteNote w2
           | (Inr (Some localNote), w2) \<Rightarrow>
               if updatedAt localNote < updatedAt remoteNote
               then saveRemoteNote remoteNote w2
               else (Inr (), w2)
      else (Inr (), w))"

fun realtime_loop :: "(ChangeType \<times> FirebaseNote) list \<Rightarrow> unit io" where
  "realtime_loop [] w = (Inr (), w)"
| "realtime_loop ((change, data) # rest) w =
     (case realtime_step change data w of
        (Inl e, w1) \<Rightarrow> (Inl e, w1)
      | (Inr u, w1) \<Rightarrow> realtime_loop rest w1)"

subsection \<open>Manual resolution\<close>

definition resolveConflictManually :: "SyncConflict \<Rightarrow> bool \<Rightarrow> unit io" where
  "resolveConflictManually conflict useLocal w =
     (let noteToKeep = (if useLocal then localVersion conflict else remoteVersion conflict)
      in case updateNote (noteId conflict)
                (no_updates\<lparr>p_title := Present (title noteToKeep),
                   p_content := Present (content noteToKeep),
                   p_richContent := Present (richContent noteToKeep),
                   p_completed := Present (completed noteToKeep),
                   p_checklist := Present (checklist noteToKeep),
                   p_tags := Present (tags noteToKeep),
                   p_conflictVersion :=
                     Present (Some (or_zero (conflictVersion noteToKeep) + 1))\<rparr>) w of
           (Inl e, w1) \<Rightarrow> (Inl e, w1)
         | (Inr u, w1) \<Rightarrow>
             if isInitialized (firebase w1) then uploadNote noteToKeep w1
             else (Inr (), w1))"

section \<open>The notes store (hooks/notes-store.ts)\<close>

text \<open>
  The store keeps the \<open>SyncStatus\<close> in React state; each \<open>setSyncStatus(prev => ...)\<close> is
  applied to the status left by the one before. \<open>loadNotes\<close>, \<open>performSync\<close> and the
  store's \<open>resolveConflict\<close> catch every failure of the services they call.
\<close>

definition loadNotes :: "World \<times> SyncStatus \<Rightarrow> World \<times> SyncStatus" where
  "loadNotes ws =
     (case ws of (w, st) \<Rightarrow>
        (case getAllNotes w of
           (Inl e, w1) \<Rightarrow> (w1, st)
         | (Inr loadedNotes, w1) \<Rightarrow>
             (case getNotesForSync w1 of
                (Inl e, w2) \<Rightarrow> (w2, st)
              | (Inr pendingNotes, w2) \<Rightarrow>
                  (w2, st\<lparr>isOnline := isOnline_db w1,
                          pendingChanges := length pendingNotes\<rparr>))))"

definition performSync :: "World \<times> SyncStatus \<Rightarrow> World \<times> SyncStatus" where
  "performSync ws =
     (case ws of (w, st) \<Rightarrow>
        let st1 = st\<lparr>isSyncing := True\<rparr>;
            (result, w1) = syncNotes w
        in if success result then
             let (w2, st2) = loadNotes (w1, st1);
                 (now, w3) = date_now w2
             in (w3, st2\<lparr>status_lastSyncAt := Some now,
                         conflicts := result_conflicts result,
                         pendingChanges := 0,
                         isSyncing := False\<rparr>)
           else (w1, st1\<lparr>isSyncing := False\<rparr>))"

definition resolveConflict_store ::
  "SyncConflict \<Rightarrow> bool \<Rightarrow> World \<times> SyncStatus \<Rightarrow> World \<times> SyncStatus" where
  "resolveConflict_store conflict useLocal ws =
     (case ws of (w, st) \<Rightarrow>
        (case resolveConflictManually conflict useLocal w of
           (Inl e, w1) \<Rightarrow> (w1, st)
         | (Inr u, w1) \<Rightarrow>
             loadNotes (w1, st\<lparr>conflicts :=
                filter (\<lambda>c. noteId c \<noteq> noteId conflict) (conflicts st)\<rparr>)))"

section \<open>Observations on the stores\<close>

text \<open>
  What is stored for a note id, read straight from the table or from the stored array
  (soft-deleted notes included), and the part of the world that is the device's own.
\<close>

definition stored_row :: "string \<Rightarrow> World \<Rightarrow> NoteRow option" where
  "stored_row i w =
     (case db (database w) of None \<Rightarrow> None
      | Some d \<Rightarrow> find (\<lambda>r. col_id r = i) (notes_table d))"

definition stored_checklist :: "string \<Rightarrow> World \<Rightarrow> ChecklistRow list" where
  "stored_checklist i w =
     (case db (database w) of None \<Rightarrow> []
      | Some d \<Rightarrow> filter (\<lambda>row. ck_note_id row = i) (checklist_items d))"

definition stored_notes_web :: "World \<Rightarrow> Note list" where
  "stored_notes_web w = (case notes_storage w of None \<Rightarrow> [] | Some ns \<Rightarrow> ns)"

definition local_state ::
  "World \<Rightarrow> DatabaseService \<times> Note list option \<times> (string \<times> string) list option" where
  "local_state w = (database w, notes_storage w, metadata_storage w)"

section \<open>Example states\<close>

text \<open>
  A note that is stored and synced (\<open>updatedAt = lastSyncAt = 10\<close>), a native and a web
  device holding it, and the remote document of the same note after another device
  changed its title at time 30. The device clock reads 1000, 1001, ...; every request to
  the remote store succeeds unless stated otherwise.
\<close>

definition example_note :: Note where
  "example_note =
     \<lparr>title = ''A'', content = ''text'', richContent = Some [], note_type = type_note,
      completed = Some False, checklist = None, tags = [''home''],
      syncId = Some ''n1'', lastSyncAt = Some 10, conflictVersion = Some 0,
      isDeleted = Some False, note_id = ''n1'', createdAt = 5, updatedAt = 10,
      deviceId = ''device_a''\<rparr>"

definition example_remote :: FirebaseNote where
  "example_remote =
     \<lparr>fb_id = ''n1'', fb_title = ''B'', fb_content = ''text'', fb_richContent = [],
      fb_type = type_note, fb_completed = False, fb_checklist = [], fb_tags = [''home''],
      fb_createdAt = 5, fb_updatedAt = 30, fb_isDeleted = False,
      fb_deviceId = ''device_b'', fb_conflictVersion = 0, fb_lastModified = 31\<rparr>"

definition example_remote_note :: Note where
  "example_remote_note =
     \<lparr>title = ''B'', content = ''text'', richContent = Some [], note_type = type_note,
      completed = Some False, checklist = Some [], tags = [''home''],
      syncId = Some ''n1'', lastSyncAt = Some 1000, conflictVersion = Some 0,
      isDeleted = Some False, note_id = ''n1'', createdAt = 5, updatedAt = 30,
      deviceId = ''device_b''\<rparr>"

definition native_world :: World where
  "native_world =
     \<lparr>database = \<lparr>db = Some \<lparr>notes_table = [noteRow example_note],
                                checklist_items = [], sync_metadata = []\<rparr>,
                   svc_deviceId = Some ''device_a'', isWeb = False\<rparr>,
      notes_storage = None, metadata_storage = None,
      firebase = \<lparr>fs_db = True, isInitialized = True, syncInProgress = False\<rparr>,
      remote = [(''n1'', example_remote)],
      connected = True,
      clock = (\<lambda>k. 1000 + int k), clock_reads = 0,
      random = (\<lambda>k. ''k3x9''), random_reads = 0,
      request_ok = (\<lambda>k. True), server_time = (\<lambda>k. 2000 + int k), requests = 0\<rparr>"

definition web_world :: World where
  "web_world =
     \<lparr>database = \<lparr>db = None, svc_deviceId = Some ''device_a'', isWeb = True\<rparr>,
      notes_storage = Some [example_note], metadata_storage = Some [],
      firebase = \<lparr>fs_db = True, isInitialized = True, syncInProgress = False\<rparr>,
      remote = [(''n1'', example_remote)],
      connected = True,
      clock = (\<lambda>k. 1000 + int k), clock_reads = 0,
      random = (\<lambda>k. ''k3x9''), random_reads = 0,
      request_ok = (\<lambda>k. True), server_time = (\<lambda>k. 2000 + int k), requests = 0\<rparr>"

definition example_updates :: PartialNote where
  "example_updates =
     no_updates\<lparr>p_title := Present ''Z'', p_updatedAt := Present 7,
      p_syncId := Present (Some ''other''), p_lastSyncAt := Present (Some 99),
      p_conflictVersion := Present (Some 5), p_isDeleted := Present (Some True)\<rparr>"

definition unreachable_world :: World where
  "unreachable_world = native_world\<lparr>request_ok := (\<lambda>k. False)\<rparr>"

definition quiet_world :: World where
  "quiet_world = native_world\<lparr>remote := []\<rparr>"

definition other_conflict :: SyncConflict where
  "other_conflict =
     \<lparr>noteId = ''n2'', localVersion = example_note\<lparr>note_id := ''n2''\<rparr>,
      remoteVersion = example_note\<lparr>note_id := ''n2'', title := ''B''\<rparr>,
      conflictFields = [''title'']\<rparr>"

definition example_status :: SyncStatus where
  "example_status =
     \<lparr>isOnline = True, isSyncing = False, status_lastSyncAt = None, pendingChanges = 0,
      conflicts = [other_conflict]\<rparr>"

definition tie_conflict :: SyncConflict where
  "tie_conflict =
     \<lparr>noteId = ''n1'', localVersion = example_note,
      remoteVersion = example_remote_note\<lparr>updatedAt := 10\<rparr>,
      conflictFields = [''title'', ''checklist'']\<rparr>"

definition empty_world :: World where
  "empty_world =
     native_world\<lparr>database := \<lparr>db = Some \<lparr>notes_table = [], checklist_items = [],
                                               sync_metadata = []\<rparr>,
                                  svc_deviceId = Some ''device_a'', isWeb = False\<rparr>\<rparr>"

definition web_synced_world :: World where
  "web_synced_world =
     web_world\<lparr>remote := [(''n1'', firebaseNote example_note 11)],
                metadata_storage := Some [(''last_sync_time'', ''20'')]\<rparr>"

definition native_synced_world :: World where
  "native_synced_world =
     native_world\<lparr>remote := [(''n1'', firebaseNote example_note 11)],
        database := \<lparr>db = Some \<lparr>notes_table = [noteRow example_note], checklist_items = [],
             sync_metadata = [\<lparr>meta_key = ''last_sync_time'', meta_value = ''20'',
                               meta_updated_at = 20\<rparr>]\<rparr>,
           svc_deviceId = Some ''device_a'', isWeb = False\<rparr>\<rparr>"

definition notes_for_sync :: "World \<Rightarrow> string list" where
  "notes_for_sync w = (case fst (getNotesForSync w) of Inl e \<Rightarrow> [] | Inr ns \<Rightarrow> map note_id ns)"

definition local_item :: ChecklistItem where
  "local_item =
     \<lparr>item_id = ''i1'', item_text = ''milk'', item_completed = False, item_createdAt = 5,
      item_keys = [''id'', ''text'', ''completed'', ''createdAt'']\<rparr>"

definition remote_item :: ChecklistItem where
  "remote_item = local_item\<lparr>item_keys := [''completed'', ''createdAt'', ''id'', ''text'']\<rparr>"

definition listed_local :: Note where
  "listed_local = example_note\<lparr>checklist := Some [local_item]\<rparr>"

definition listed_remote :: Note where
  "listed_remote = example_note\<lparr>checklist := Some [remote_item]\<rparr>"

section \<open>Unfolding the model on the examples\<close>

text \<open>
  The definitions that the simplifier unfolds to run the model on an example state, and
  the runs that several results below share.
\<close>

lemmas js_defs = truthy_bool_def or_empty_def or_zero_def falsy_to_null_string_def
  falsy_to_null_time_def or_id_def pick_def

lemmas store_defs = getNoteById_def getNoteByIdWeb_def getAllNotesWeb_def getAllNotes_def
  getNotesForSync_def getNotesForSyncWeb_def mapRowToNote_def getChecklistItems_def
  checklistRow_def deleteChecklistItems_def noteRow_def saveNote_def saveNoteWeb_def
  update_row_def spread_updates_def updateNote_def updateNoteWeb_def deleteNote_def
  deleteNoteWeb_def markAsSynced_def markAsSyncedWeb_def isOnline_db_def
  getSyncMetadata_def getSyncMetadataWeb_def setSyncMetadata_def setSyncMetadataWeb_def
  date_now_def math_random_def set_db_def no_updates_def

lemmas sync_defs = firebaseNote_def uploadNote_def mapFirebaseToNote_def saveRemoteNote_def
  getConflictFields_def resolveConflict_def query_notes_def getDocs_def watermark_def
  download_step_def downloadRemoteChanges_def sync_body_def set_syncInProgress_def
  syncNotes_def realtime_step_def resolveConflictManually_def

lemmas parse_defs = parseInt_def digit_val_def white_space_def

lemmas example_defs = example_note_def example_remote_def example_remote_note_def
  native_world_def web_world_def

lemmas call_defs = call_step_def syncNotes_guard_def syncNotes_online_def syncNotes_pass_def

lemma toString_1000: "toString 1000 = ''1000''"
  by (simp add: toString_def digits.simps)

lemma toString_1003: "toString 1003 = ''1003''"
  by (simp add: toString_def digits.simps)

lemma toString_1005: "toString 1005 = ''1005''"
  by (simp add: toString_def digits.simps)

lemma native_row: "stored_row ''n1'' native_world = Some (noteRow example_note)"
  by (simp add: stored_row_def native_world_def noteRow_def example_note_def)

lemma native_mapFirebaseToNote:
  "mapFirebaseToNote example_remote native_world =
     (example_remote_note, native_world\<lparr>clock_reads := 1\<rparr>)"
  by (simp add: mapFirebaseToNote_def date_now_def example_remote_def example_remote_note_def
      native_world_def)

lemma native_getNoteById:
  "getNoteById ''n1'' (native_world\<lparr>clock_reads := k\<rparr>) =
     (Inr (Some example_note), native_world\<lparr>clock_reads := k\<rparr>)"
  by (simp add: getNoteById_def native_world_def noteRow_def example_note_def mapRowToNote_def
      getChecklistItems_def falsy_to_null_string_def falsy_to_null_time_def or_zero_def
      or_empty_def truthy_bool_def)

lemma native_saveRemoteNote:
  "saveRemoteNote example_remote_note (native_world\<lparr>clock_reads := 1\<rparr>) =
     (Inr (), native_world\<lparr>clock_reads := 3,
        database := \<lparr>db = Some \<lparr>notes_table =
             [(noteRow example_note)\<lparr>col_title := ''B'', col_updated_at := 1002\<rparr>],
           checklist_items = [], sync_metadata = []\<rparr>,
          svc_deviceId = Some ''device_a'', isWeb = False\<rparr>\<rparr>)"
  using native_getNoteById [of 1]
  apply (simp add: saveRemoteNote_def example_remote_note_def date_now_def)
  apply (simp add: native_world_def updateNote_def date_now_def no_updates_def update_row_def
      set_db_def deleteChecklistItems_def noteRow_def example_note_def js_defs)
  done

lemma native_pull_docs: "map fb_lastModified (query_notes None 100 native_world) = [31]"
  by (simp add: query_notes_def native_world_def example_remote_def)

lemma native_downloadRemoteChanges:
  "fst (downloadRemoteChanges native_world) = Inr []
   \<and> fst (getSyncMetadata ''last_sync_time'' (snd (downloadRemoteChanges native_world)))
       = Inr (Some ''1003'')"
  by (simp add: store_defs sync_defs example_defs js_defs toString_1003)

lemma unreachable_pass:
  "sync_body (set_syncInProgress True unreachable_world) =
     (Inl RequestFailed, (set_syncInProgress True unreachable_world)\<lparr>requests := 1\<rparr>)"
  by (simp add: sync_body_def unreachable_world_def native_world_def set_syncInProgress_def
      getNotesForSync_def noteRow_def example_note_def falsy_to_null_time_def
      downloadRemoteChanges_def getSyncMetadata_def watermark_def getDocs_def)

lemma quiet_pass: "fst (syncNotes quiet_world) = \<lparr>success = True, result_conflicts = []\<rparr>"
  by (simp add: quiet_world_def store_defs sync_defs example_defs js_defs)

section \<open>Properties of the local store\<close>

lemma findIndex_Some: "findIndex P xs = Some k \<Longrightarrow> k < length xs \<and> P (xs ! k)"
proof (induction xs arbitrary: k)
  case Nil
  then show ?case by simp
next
  case (Cons x xs)
  then show ?case by (auto split: if_splits)
qed

lemma find_map_same_key:
  assumes "\<And>r. key (g r) = key r"
  shows "find (\<lambda>r. key r = i) (map (\<lambda>r. if key r = i then g r else r) xs)
         = map_option g (find (\<lambda>r. key r = i) xs)"
  using assms by (induction xs) auto

lemma find_conj_first:
  "find P xs = Some r \<Longrightarrow> Q r \<Longrightarrow> find (\<lambda>x. P x \<and> Q x) xs = Some r"
  by (induction xs) (auto split: if_splits)

lemma saveChecklistItems_db:
  "saveChecklistItems i items w = (res, w') \<Longrightarrow> db (database w) = Some d \<Longrightarrow>
     \<exists>d'. db (database w') = Some d' \<and> notes_table d' = notes_table d
        \<and> sync_metadata d' = sync_metadata d
        \<and> (res = Inr () \<longrightarrow> checklist_items d' = checklist_items d @ map (checklistRow i) items)"
proof (induction items arbitrary: w d)
  case Nil
  then show ?case by auto
next
  case (Cons item items)
  show ?case
  proof (cases "item_id item \<in> set (map ck_id (checklist_items d))")
    case True
    then show ?thesis using Cons.prems by auto
  next
    case False
    let ?d1 = "d\<lparr>checklist_items := checklist_items d @ [checklistRow i item]\<rparr>"
    have step: "saveChecklistItems i items (set_db ?d1 w) = (res, w')"
      using Cons.prems False by simp
    have "db (database (set_db ?d1 w)) = Some ?d1" by (simp add: set_db_def)
    from Cons.IH [OF step this] show ?thesis by auto
  qed
qed

lemma saveChecklistItems_rest:
  "saveChecklistItems i items w = (res, w') \<Longrightarrow>
     w' = w\<lparr>database := database w'\<rparr> \<and> isWeb (database w') = isWeb (database w)
     \<and> svc_deviceId (database w') = svc_deviceId (database w)"
proof (induction items arbitrary: w)
  case Nil
  then show ?case by (auto split: option.splits)
next
  case (Cons item items)
  show ?case
  proof (cases "db (database w)")
    case None
    then show ?thesis using Cons.prems by auto
  next
    case (Some d)
    show ?thesis
    proof (cases "item_id item \<in> set (map ck_id (checklist_items d))")
      case True
      then show ?thesis using Cons.prems Some by auto
    next
      case False
      let ?d1 = "d\<lparr>checklist_items := checklist_items d @ [checklistRow i item]\<rparr>"
      have step: "saveChecklistItems i items (set_db ?d1 w) = (res, w')"
        using Cons.prems False Some by simp
      from Cons.IH [OF step] show ?thesis by (auto simp: set_db_def)
    qed
  qed
qed

lemma update_row_id: "col_id (update_row u t r) = col_id r"
  by (simp add: update_row_def)

lemma updateNote_native_row:
  assumes nat: "\<not> isWeb (database w)" and st: "stored_row i w = Some r"
  shows "stored_row i (snd (updateNote i updates w))
           = Some (update_row updates (clock w (clock_reads w)) r)"
proof -
  from st obtain d where d: "db (database w) = Some d"
    and f: "find (\<lambda>r. col_id r = i) (notes_table d) = Some r"
    by (auto simp: stored_row_def split: option.splits)
  let ?now = "clock w (clock_reads w)"
  let ?d1 = "d\<lparr>notes_table := map (\<lambda>r. if col_id r = i then update_row updates ?now r else r)
                       (notes_table d)\<rparr>"
  let ?w2 = "set_db ?d1 (w\<lparr>clock_reads := Suc (clock_reads w)\<rparr>)"
  have row2: "stored_row i ?w2 = Some (update_row updates ?now r)"
    using f find_map_same_key [of col_id "update_row updates ?now" i "notes_table d"]
    by (simp add: stored_row_def set_db_def update_row_id)
  have db2: "db (database ?w2) = Some ?d1" by (simp add: set_db_def)
  show ?thesis
  proof (cases "p_checklist updates")
    case Absent
    then show ?thesis using nat d row2 by (simp add: updateNote_def date_now_def)
  next
    case (Present c)
    show ?thesis
    proof (cases c)
      case None
      then show ?thesis using nat d row2 Present by (simp add: updateNote_def date_now_def)
    next
      case (Some items)
      let ?d3 = "?d1\<lparr>checklist_items := filter (\<lambda>row. ck_note_id row \<noteq> i) (checklist_items ?d1)\<rparr>"
      let ?w3 = "set_db ?d3 ?w2"
      have del: "deleteChecklistItems i ?w2 = (Inr (), ?w3)"
        using db2 by (simp add: deleteChecklistItems_def)
      have row3: "stored_row i ?w3 = Some (update_row updates ?now r)"
        using row2 by (simp add: stored_row_def set_db_def)
      have db3: "db (database ?w3) = Some ?d3" by (simp add: set_db_def)
      obtain res w4 where s: "saveChecklistItems i items ?w3 = (res, w4)"
        by (cases "saveChecklistItems i items ?w3")
      from saveChecklistItems_db [OF s db3] obtain d4 where
        "db (database w4) = Some d4" "notes_table d4 = notes_table ?d3" by blast
      then have row4: "stored_row i w4 = Some (update_row updates ?now r)"
        using row3 by (simp add: stored_row_def set_db_def)
      have "snd (updateNote i updates w) = (if length items > 0 then w4 else ?w3)"
        using nat d Present Some del s by (simp add: updateNote_def date_now_def)
      then show ?thesis using row3 row4 by simp
    qed
  qed
qed

lemma updateNote_web_index:
  assumes web: "isWeb (database w)" and ns: "notes_storage w = Some ns"
    and k: "findIndex (\<lambda>n. note_id n = i) ns = Some k"
  shows "updateNote i updates w =
           (Inr (), w\<lparr>clock_reads := Suc (clock_reads w),
                      notes_storage := Some (ns[k := spread_updates (ns ! k) updates (clock w (clock_reads w))])\<rparr>)"
  using assms by (simp add: updateNote_def updateNoteWeb_def date_now_def)

lemma updateNote_native_checklist:
  assumes nat: "\<not> isWeb (database w)" and d: "db (database w) = Some d"
    and c: "p_checklist updates = Present (Some items)"
    and ok: "fst (updateNote i updates w) = Inr ()"
  shows "stored_checklist i (snd (updateNote i updates w)) = map (checklistRow i) items"
proof -
  let ?now = "clock w (clock_reads w)"
  let ?d1 = "d\<lparr>notes_table := map (\<lambda>r. if col_id r = i then update_row updates ?now r else r)
                       (notes_table d)\<rparr>"
  let ?w2 = "set_db ?d1 (w\<lparr>clock_reads := Suc (clock_reads w)\<rparr>)"
  let ?d3 = "?d1\<lparr>checklist_items := filter (\<lambda>row. ck_note_id row \<noteq> i) (checklist_items ?d1)\<rparr>"
  let ?w3 = "set_db ?d3 ?w2"
  have del: "deleteChecklistItems i ?w2 = (Inr (), ?w3)"
    by (simp add: deleteChecklistItems_def set_db_def)
  have db3: "db (database ?w3) = Some ?d3" by (simp add: set_db_def)
  have empty3: "stored_checklist i ?w3 = []"
    by (simp add: stored_checklist_def set_db_def)
  obtain res w4 where s: "saveChecklistItems i items ?w3 = (res, w4)"
    by (cases "saveChecklistItems i items ?w3")
  have run: "updateNote i updates w = (if length items > 0 then (res, w4) else (Inr (), ?w3))"
    using nat d c del s by (simp add: updateNote_def date_now_def)
  show ?thesis
  proof (cases "length items > 0")
    case False
    then show ?thesis using run empty3 by simp
  next
    case True
    then have "res = Inr ()" using run ok by simp
    with saveChecklistItems_db [OF s db3] obtain d4 where
      d4: "db (database w4) = Some d4"
      "checklist_items d4 = checklist_items ?d3 @ map (checklistRow i) items" by blast
    have "filter (\<lambda>row. ck_note_id row = i) (map (checklistRow i) items) = map (checklistRow i) items"
      by (induction items) (simp_all add: checklistRow_def)
    then have "stored_checklist i w4 = map (checklistRow i) items"
      using d4 by (simp add: stored_checklist_def)
    then show ?thesis using run True by simp
  qed
qed

lemma updateNote_native_checklist_kept:
  assumes nat: "\<not> isWeb (database w)"
    and c: "p_checklist updates = Absent \<or> p_checklist updates = Present None"
  shows "stored_checklist i' (snd (updateNote i updates w)) = stored_checklist i' w"
  using assms
  by (auto simp: updateNote_def date_now_def stored_checklist_def set_db_def split: option.splits)

text \<open>
  Claim C10. \<open>updateNote(id, updates)\<close> on a stored note sets the stored \<open>updatedAt\<close> to
  the reading of the device clock, whatever \<open>updates.updatedAt\<close> is. On the native path
  the row takes title, content, richContent, type, completed and tags from \<open>updates\<close>
  where they are given; sync_id, last_sync_at, conflict_version and is_deleted (and id,
  created_at, device_id) keep their values whatever \<open>updates\<close> holds for them; a given
  checklist replaces the note's checklist rows when the update succeeds, and the rows
  stay as they are when none is given.
\<close>

theorem updateNote_applies_content_only:
  "(\<not> isWeb (database w) \<and> stored_row i w = Some r \<longrightarrow>
      (\<exists>r'. stored_row i (snd (updateNote i updates w)) = Some r' \<and>
         col_updated_at r' = clock w (clock_reads w) \<and>
         col_title r' = pick (p_title updates) (col_title r) \<and>
         col_content r' = pick (p_content updates) (col_content r) \<and>
         col_rich_content r' = (case p_richContent updates of Present (Some v) \<Rightarrow> Some v
                                | _ \<Rightarrow> col_rich_content r) \<and>
         col_type r' = pick (p_type updates) (col_type r) \<and>
         col_completed r' = (case p_completed updates of
                               Present (Some v) \<Rightarrow> (if v then 1 else 0)
                             | _ \<Rightarrow> col_completed r) \<and>
         col_tags r' = pick (p_tags updates) (col_tags r) \<and>
         col_sync_id r' = col_sync_id r \<and>
         col_last_sync_at r' = col_last_sync_at r \<and>
         col_conflict_version r' = col_conflict_version r \<and>
         col_is_deleted r' = col_is_deleted r \<and>
         col_id r' = col_id r \<and> col_created_at r' = col_created_at r \<and>
         col_device_id r' = col_device_id r) \<and>
      (\<forall>items. p_checklist updates = Present (Some items) \<and>
           fst (updateNote i updates w) = Inr () \<longrightarrow>
           stored_checklist i (snd (updateNote i updates w)) = map (checklistRow i) items) \<and>
      (p_checklist updates = Absent \<or> p_checklist updates = Present None \<longrightarrow>
           stored_checklist i (snd (updateNote i updates w)) = stored_checklist i w))
   \<and> (isWeb (database w) \<and> notes_storage w = Some ns \<and>
        findIndex (\<lambda>n. note_id n = i) ns = Some k \<longrightarrow>
      (\<exists>ns'. notes_storage (snd (updateNote i updates w)) = Some ns' \<and>
         length ns' = length ns \<and>
         updatedAt (ns' ! k) = clock w (clock_reads w)))"
proof (intro conjI impI)
  assume a: "\<not> isWeb (database w) \<and> stored_row i w = Some r"
  then have "stored_row i (snd (updateNote i updates w))
               = Some (update_row updates (clock w (clock_reads w)) r)"
    by (simp add: updateNote_native_row)
  then show "\<exists>r'. stored_row i (snd (updateNote i updates w)) = Some r' \<and>
         col_updated_at r' = clock w (clock_reads w) \<and>
         col_title r' = pick (p_title updates) (col_title r) \<and>
         col_content r' = pick (p_content updates) (col_content r) \<and>
         col_rich_content r' = (case p_richContent updates of Present (Some v) \<Rightarrow> Some v
                                | _ \<Rightarrow> col_rich_content r) \<and>
         col_type r' = pick (p_type updates) (col_type r) \<and>
         col_completed r' = (case p_completed updates of
                               Present (Some v) \<Rightarrow> (if v then 1 else 0)
                             | _ \<Rightarrow> col_completed r) \<and>
         col_tags r' = pick (p_tags updates) (col_tags r) \<and>
         col_sync_id r' = col_sync_id r \<and>
         col_last_sync_at r' = col_last_sync_at r \<and>
         col_conflict_version r' = col_conflict_version r \<and>
         col_is_deleted r' = col_is_deleted r \<and>
         col_id r' = col_id r \<and> col_created_at r' = col_created_at r \<and>
         col_device_id r' = col_device_id r"
    by (simp add: update_row_def pick_def)
next
  assume a: "\<not> isWeb (database w) \<and> stored_row i w = Some r"
  then obtain d where d: "db (database w) = Some d"
    by (auto simp: stored_row_def split: option.splits)
  show "\<forall>items. p_checklist updates = Present (Some items) \<and>
           fst (updateNote i updates w) = Inr () \<longrightarrow>
           stored_checklist i (snd (updateNote i updates w)) = map (checklistRow i) items"
    using a d updateNote_native_checklist [of w d updates _ i] by blast
next
  assume "\<not> isWeb (database w) \<and> stored_row i w = Some r"
    and "p_checklist updates = Absent \<or> p_checklist updates = Present None"
  then show "stored_checklist i (snd (updateNote i updates w)) = stored_checklist i w"
    using updateNote_native_checklist_kept [of w updates i i] by blast
next
  assume a: "isWeb (database w) \<and> notes_storage w = Some ns \<and>
        findIndex (\<lambda>n. note_id n = i) ns = Some k"
  then have "k < length ns" using findIndex_Some [of "\<lambda>n. note_id n = i" ns k] by simp
  then show "\<exists>ns'. notes_storage (snd (updateNote i updates w)) = Some ns' \<and>
         length ns' = length ns \<and>
         updatedAt (ns' ! k) = clock w (clock_reads w)"
    using a updateNote_web_index [of w ns i k updates] by (simp add: spread_updates_def)
qed

theorem updateNote_applies_content_only_witness:
  "\<not> isWeb (database native_world) \<and> stored_row ''n1'' native_world = Some (noteRow example_note)
   \<and> (\<exists>r'. stored_row ''n1'' (snd (updateNote ''n1'' example_updates native_world)) = Some r' \<and>
         col_updated_at r' = 1000 \<and> col_title r' = ''Z'' \<and> col_sync_id r' = Some ''n1'' \<and>
         col_last_sync_at r' = Some 10 \<and> col_conflict_version r' = 0 \<and> col_is_deleted r' = 0)
   \<and> isWeb (database web_world) \<and> notes_storage web_world = Some [example_note]
   \<and> findIndex (\<lambda>n. note_id n = ''n1'') [example_note] = Some 0
   \<and> (\<exists>ns'. notes_storage (snd (updateNote ''n1'' example_updates web_world)) = Some ns' \<and>
         updatedAt (ns' ! 0) = 1000)"
proof -
  have h1: "\<not> isWeb (database native_world) \<and> stored_row ''n1'' native_world = Some (noteRow example_note)"
    using native_row by (simp add: native_world_def)
  have h2: "isWeb (database web_world) \<and> notes_storage web_world = Some [example_note]
     \<and> findIndex (\<lambda>n. note_id n = ''n1'') [example_note] = Some 0"
    by (simp add: web_world_def example_note_def)
  have c1: "clock native_world (clock_reads native_world) = 1000" by (simp add: native_world_def)
  have c2: "clock web_world (clock_reads web_world) = 1000" by (simp add: web_world_def)
  have u: "pick (p_title example_updates) x = ''Z''" for x
    by (simp add: example_updates_def no_updates_def pick_def)
  show ?thesis
    using h1 h2 c1 c2 u
      updateNote_applies_content_only [of native_world "''n1''" "noteRow example_note" example_updates]
      updateNote_applies_content_only [of web_world "''n1''" _ example_updates "[example_note]" 0]
    apply (simp add: noteRow_def example_note_def falsy_to_null_string_def falsy_to_null_time_def or_zero_def truthy_bool_def)
    apply blast
    done
qed

section \<open>Conflict resolution\<close>

lemma getConflictFields_mem:
  "f \<in> set (getConflictFields l r) \<longleftrightarrow>
     (f = ''title'' \<and> title l \<noteq> title r) \<or> (f = ''content'' \<and> content l \<noteq> content r) \<or>
     (f = ''completed'' \<and> completed l \<noteq> completed r) \<or>
     (f = ''tags'' \<and> stringify_tags (tags l) \<noteq> stringify_tags (tags r)) \<or>
     (f = ''checklist'' \<and> stringify_checklist (checklist l) \<noteq> stringify_checklist (checklist r))"
  by (auto simp: getConflictFields_def)

lemma getConflictFields_distinct: "distinct (getConflictFields l r)"
  by (simp add: getConflictFields_def)

lemma getConflictFields_empty:
  "getConflictFields l r = [] \<longleftrightarrow>
     title l = title r \<and> content l = content r \<and> completed l = completed r \<and>
     stringify_tags (tags l) = stringify_tags (tags r) \<and>
     stringify_checklist (checklist l) = stringify_checklist (checklist r)"
  by (auto simp: getConflictFields_def)

text \<open>
  With equal \<open>updatedAt\<close> the resolver touches no store: it returns no conflict when
  \<open>getConflictFields\<close> finds nothing, and otherwise a conflict that lists what
  \<open>getConflictFields\<close> found.
\<close>

lemma resolveConflict_tie:
  assumes "updatedAt localNote = updatedAt remoteNote"
  shows "resolveConflict localNote remoteNote w =
      (if getConflictFields localNote remoteNote = [] then (Inr None, w)
       else (Inr (Some \<lparr>noteId = note_id localNote, localVersion = localNote,
                     remoteVersion = remoteNote,
                     conflictFields = getConflictFields localNote remoteNote\<rparr>), w))"
  using assms by (simp add: resolveConflict_def Let_def)

lemma quote_id: "quote ''id'' = CHR 0x22 # ''id'' @ [CHR 0x22]"
  by (simp add: quote_def escape_char_def)

lemma quote_completed: "quote ''completed'' = CHR 0x22 # ''completed'' @ [CHR 0x22]"
  by (simp add: quote_def escape_char_def)

lemma listed_texts_differ:
  "stringify_checklist (Some [local_item]) \<noteq> stringify_checklist (Some [remote_item])"
  by (simp add: stringify_checklist_def stringify_item_def local_item_def remote_item_def
      property_text_def List.map_filter_def quote_id quote_completed)

text \<open>
  Claim C2 at a failing input. The two notes have the same \<open>updatedAt\<close> and the same
  title, content, completed flag and tags, and their checklists hold one item each with
  the same id, text, completed flag and creation date; the local item has its properties
  in the order in which \<open>getChecklistItems\<close> builds them, the remote one in another
  order. The \<open>JSON.stringify\<close> texts differ, so the resolver returns a conflict on
  \<open>checklist\<close>, and with the title changed as well the conflict lists \<open>title\<close> and
  \<open>checklist\<close>.
\<close>

theorem getConflictFields_property_order:
  "updatedAt listed_local = updatedAt listed_remote
   \<and> title listed_local = title listed_remote
   \<and> content listed_local = content listed_remote
   \<and> completed listed_local = completed listed_remote
   \<and> tags listed_local = tags listed_remote
   \<and> map_option (map item_values) (checklist listed_local)
       = map_option (map item_values) (checklist listed_remote)
   \<and> resolveConflict listed_local listed_remote native_world =
       (Inr (Some \<lparr>noteId = ''n1'', localVersion = listed_local,
                   remoteVersion = listed_remote,
                   conflictFields = [''checklist'']\<rparr>), native_world)
   \<and> getConflictFields listed_local (listed_remote\<lparr>title := ''B''\<rparr>)
       = [''title'', ''checklist'']"
proof -
  have same: "map_option (map item_values) (checklist listed_local)
       = map_option (map item_values) (checklist listed_remote)"
    by (simp add: listed_local_def listed_remote_def item_values_def local_item_def
        remote_item_def)
  have lists: "checklist listed_local = Some [local_item]"
    "checklist listed_remote = Some [remote_item]"
    "checklist (listed_remote\<lparr>title := ''B''\<rparr>) = Some [remote_item]"
    by (simp_all add: listed_local_def listed_remote_def)
  have rest: "updatedAt listed_local = updatedAt listed_remote"
    "title listed_local = title listed_remote"
    "content listed_local = content listed_remote"
    "completed listed_local = completed listed_remote"
    "tags listed_local = tags listed_remote"
    "note_id listed_local = ''n1''"
    "title (listed_remote\<lparr>title := ''B''\<rparr>) \<noteq> title listed_local"
    by (simp_all add: listed_local_def listed_remote_def example_note_def)
  have found: "getConflictFields listed_local listed_remote = [''checklist'']"
    using lists rest listed_texts_differ by (simp add: getConflictFields_def)
  have found_title: "getConflictFields listed_local (listed_remote\<lparr>title := ''B''\<rparr>)
       = [''title'', ''checklist'']"
    using lists rest listed_texts_differ by (auto simp add: getConflictFields_def)
  have "resolveConflict listed_local listed_remote native_world =
       (Inr (Some \<lparr>noteId = ''n1'', localVersion = listed_local,
                   remoteVersion = listed_remote,
                   conflictFields = [''checklist'']\<rparr>), native_world)"
    using resolveConflict_tie [OF rest(1), of native_world] found rest(6) by simp
  then show ?thesis using same rest found_title by simp
qed

text \<open>
  The comparison also misfires on the code's own round trip: a stored note without
  checklist items is read with \<open>checklist = undefined\<close>, uploaded with \<open>checklist = []\<close>
  and mapped back with \<open>checklist = []\<close>, and \<open>JSON.stringify\<close> gives \<open>undefined\<close> for the one
  and a text for the other, so the note and its own remote copy are reported to differ in
  \<open>checklist\<close>.
\<close>

lemma own_copy_flagged:
  "getConflictFields example_note
     (fst (mapFirebaseToNote (firebaseNote example_note 11) native_world)) = [''checklist'']"
  by (simp add: getConflictFields_def mapFirebaseToNote_def firebaseNote_def date_now_def
      example_note_def stringify_checklist_def js_defs)

text \<open>
  Claim C1 at a failing input. The stored note is clean (\<open>updatedAt = lastSyncAt = 10\<close>)
  and the remote copy is newer (30). \<open>resolveConflict\<close> takes the remote title and
  returns no conflict, but \<open>updateNote\<close> stamps \<open>updated_at\<close> with the clock and leaves
  \<open>last_sync_at\<close> at 10: the note that was not in the dirty set before is in it
  afterwards.
\<close>

theorem resolveConflict_take_remote_leaves_dirty:
  "updatedAt example_note < updatedAt example_remote_note
   \<and> notes_for_sync native_world = []
   \<and> fst (resolveConflict example_note example_remote_note native_world) = Inr None
   \<and> map_option (\<lambda>r. (col_title r, col_updated_at r, col_last_sync_at r))
        (stored_row ''n1'' (snd (resolveConflict example_note example_remote_note native_world)))
       = Some (''B'', 1001, Some 10)
   \<and> notes_for_sync (snd (resolveConflict example_note example_remote_note native_world))
       = [''n1'']"
  by (simp add: notes_for_sync_def stored_row_def store_defs sync_defs example_defs js_defs)

text \<open>
  Claim C5 at a failing input. The conflict on note \<open>n1\<close> is resolved by hand in favour
  of the local version on a native device: the remote document then holds the local
  title, but the stored \<open>conflict_version\<close> is 0 before and 0 after.
\<close>

theorem resolveConflictManually_conflictVersion_unchanged:
  "map_option col_conflict_version (stored_row ''n1'' native_world) = Some 0
   \<and> fst (resolveConflictManually tie_conflict True native_world) = Inr ()
   \<and> map_option fb_title
        (map_of (remote (snd (resolveConflictManually tie_conflict True native_world))) ''n1'')
       = Some ''A''
   \<and> map_option col_conflict_version
        (stored_row ''n1'' (snd (resolveConflictManually tie_conflict True native_world)))
       = Some 0"
  by (simp add: tie_conflict_def stored_row_def store_defs sync_defs example_defs js_defs)

text \<open>
  The two divergences above do not depend on the example: on the native path neither
  \<open>saveRemoteNote\<close> on a stored note nor \<open>resolveConflictManually\<close> changes
  \<open>last_sync_at\<close> or \<open>conflict_version\<close>, since both go through \<open>updateNote\<close>.
\<close>

lemma saveRemoteNote_native_existing:
  assumes nat: "\<not> isWeb (database w)" and st: "stored_row (note_id n) w = Some r"
    and live: "col_is_deleted r = 0"
  shows "\<exists>r'. stored_row (note_id n) (snd (saveRemoteNote n w)) = Some r'
           \<and> col_title r' = title n \<and> col_content r' = content n \<and> col_tags r' = tags n
           \<and> col_updated_at r' = clock w (Suc (clock_reads w))
           \<and> col_last_sync_at r' = col_last_sync_at r
           \<and> col_sync_id r' = col_sync_id r
           \<and> col_is_deleted r' = col_is_deleted r"
proof -
  from st obtain d where d: "db (database w) = Some d"
    and f: "find (\<lambda>r. col_id r = note_id n) (notes_table d) = Some r"
    by (auto simp: stored_row_def split: option.splits)
  have "find (\<lambda>r. col_id r = note_id n \<and> col_is_deleted r = 0) (notes_table d) = Some r"
    using find_conj_first [OF f, of "\<lambda>r. col_is_deleted r = 0"] live by simp
  then have got: "getNoteById (note_id n) w = (Inr (Some (mapRowToNote d r)), w)"
    using nat d by (simp add: getNoteById_def)
  let ?w2 = "w\<lparr>clock_reads := Suc (clock_reads w)\<rparr>"
  let ?u = "no_updates\<lparr>p_title := Present (title n), p_content := Present (content n),
                  p_richContent := Present (richContent n),
                  p_type := Present (note_type n),
                  p_completed := Present (completed n),
                  p_checklist := Present (checklist n),
                  p_tags := Present (tags n),
                  p_syncId := Present (syncId n),
                  p_lastSyncAt := Present (Some (clock w (clock_reads w))),
                  p_isDeleted := Present (isDeleted n)\<rparr>"
  have run: "saveRemoteNote n w = updateNote (note_id n) ?u ?w2"
    using got by (simp add: saveRemoteNote_def date_now_def)
  have "stored_row (note_id n) ?w2 = Some r" "\<not> isWeb (database ?w2)"
    using st nat by (simp_all add: stored_row_def)
  then have "stored_row (note_id n) (snd (updateNote (note_id n) ?u ?w2))
      = Some (update_row ?u (clock ?w2 (clock_reads ?w2)) r)"
    by (simp add: updateNote_native_row)
  then show ?thesis using run by (simp add: update_row_def no_updates_def)
qed

lemma resolveConflictManually_native_conflict_version:
  assumes nat: "\<not> isWeb (database w)" and st: "stored_row (noteId c) w = Some r"
  shows "map_option col_conflict_version
           (stored_row (noteId c) (snd (resolveConflictManually c useLocal w)))
         = Some (col_conflict_version r)"
proof -
  let ?keep = "if useLocal then localVersion c else remoteVersion c"
  let ?u = "no_updates\<lparr>p_title := Present (title ?keep),
                   p_content := Present (content ?keep),
                   p_richContent := Present (richContent ?keep),
                   p_completed := Present (completed ?keep),
                   p_checklist := Present (checklist ?keep),
                   p_tags := Present (tags ?keep),
                   p_conflictVersion :=
                     Present (Some (or_zero (conflictVersion ?keep) + 1))\<rparr>"
  obtain res w1 where u: "updateNote (noteId c) ?u w = (res, w1)"
    by (cases "updateNote (noteId c) ?u w")
  have row1: "stored_row (noteId c) w1 = Some (update_row ?u (clock w (clock_reads w)) r)"
    using updateNote_native_row [OF nat st, of ?u] u by simp
  have up: "stored_row (noteId c) (snd (uploadNote ?keep w1)) = stored_row (noteId c) w1"
    by (simp add: uploadNote_def stored_row_def Let_def)
  have "stored_row (noteId c) (snd (resolveConflictManually c useLocal w))
          = stored_row (noteId c) w1"
    using u up by (cases res) (simp_all add: resolveConflictManually_def Let_def)
  then show ?thesis using row1 by (simp add: update_row_def)
qed

text \<open>
  On the web path the same two calls do store what they are given: the resolved note
  gets \<open>conflictVersion = 1\<close>, and the note taken from the remote side gets the
  \<open>lastSyncAt\<close> read by \<open>saveRemoteNote\<close> (1000), followed by the \<open>updatedAt\<close> read by
  \<open>updateNoteWeb\<close> (1001).
\<close>

lemma web_resolveConflictManually:
  "map (\<lambda>n. (note_id n, title n, conflictVersion n))
     (stored_notes_web (snd (resolveConflictManually tie_conflict True web_world)))
   = [(''n1'', ''A'', Some 1)]"
  by (simp add: tie_conflict_def stored_notes_web_def store_defs sync_defs example_defs js_defs)

lemma web_take_remote:
  "map (\<lambda>n. (note_id n, title n, lastSyncAt n, updatedAt n))
     (stored_notes_web (snd (resolveConflict example_note example_remote_note web_world)))
   = [(''n1'', ''B'', Some 1000, 1001)]"
  by (simp add: stored_notes_web_def store_defs sync_defs example_defs js_defs)

section \<open>Pulling remote changes and the realtime listener\<close>

lemma uploadNote_local: "local_state (snd (uploadNote n w)) = local_state w"
  by (simp add: uploadNote_def local_state_def Let_def)

lemma uploadNote_reads:
  "clock_reads (snd (uploadNote n w)) = clock_reads w"
  "random_reads (snd (uploadNote n w)) = random_reads w"
  by (simp_all add: uploadNote_def Let_def)

lemma resolveConflict_no_conflict:
  "updatedAt l \<noteq> updatedAt r \<Longrightarrow> fst (resolveConflict l r w) \<noteq> Inr (Some c)"
  by (auto simp: resolveConflict_def split: prod.splits sum.splits)

text \<open>
  Claim C3. For an added or modified remote document, the realtime callback and the loop
  body of the periodic pull leave the device's stores (tables, stored notes, sync
  metadata) in the same state, after the same number of clock readings and random
  draws, and the pull step reports no conflict, as the realtime callback never does.
\<close>

theorem realtime_matches_pull:
  assumes "change = added \<or> change = modified"
  shows "local_state (snd (realtime_step change data w)) = local_state (snd (download_step data w))
       \<and> clock_reads (snd (realtime_step change data w)) = clock_reads (snd (download_step data w))
       \<and> random_reads (snd (realtime_step change data w)) = random_reads (snd (download_step data w))
       \<and> (\<forall>c. fst (download_step data w) \<noteq> Inr (Some c))"
proof -
  obtain rn w1 where m: "mapFirebaseToNote data w = (rn, w1)"
    by (cases "mapFirebaseToNote data w")
  obtain res w2 where g: "getNoteById (note_id rn) w1 = (res, w2)"
    by (cases "getNoteById (note_id rn) w1")
  show ?thesis
  proof (cases res)
    case (Inl e)
    then show ?thesis using assms m g by (auto simp: realtime_step_def download_step_def)
  next
    case (Inr found)
    show ?thesis
    proof (cases found)
      case None
      then show ?thesis using assms m g Inr
        by (auto simp: realtime_step_def download_step_def split: prod.splits sum.splits)
    next
      case (Some l)
      consider "updatedAt l < updatedAt rn" | "updatedAt l = updatedAt rn"
        | "updatedAt rn < updatedAt l"
        by linarith
      then show ?thesis
      proof cases
        case 1
        then show ?thesis using assms m g Inr Some
          by (auto simp: realtime_step_def download_step_def resolveConflict_def
              split: prod.splits sum.splits)
      next
        case 2
        then show ?thesis using assms m g Inr Some
          by (auto simp: realtime_step_def download_step_def)
      next
        case 3
        then show ?thesis
          using assms m g Inr Some uploadNote_local [of l w2] uploadNote_reads [of l w2]
          by (auto simp: realtime_step_def download_step_def resolveConflict_def
              split: prod.splits sum.splits)
      qed
    qed
  qed
qed

theorem realtime_matches_pull_witness:
  "(added = added \<or> added = modified)
   \<and> local_state (snd (realtime_step added example_remote native_world))
       = local_state (snd (download_step example_remote native_world))
   \<and> fst (download_step example_remote native_world) = Inr None
   \<and> map col_title (case db (database (snd (download_step example_remote native_world))) of
         None \<Rightarrow> [] | Some d \<Rightarrow> notes_table d) = [''B'']"
proof -
  have run: "download_step example_remote native_world =
     (Inr None, native_world\<lparr>clock_reads := 3,
        database := \<lparr>db = Some \<lparr>notes_table =
             [(noteRow example_note)\<lparr>col_title := ''B'', col_updated_at := 1002\<rparr>],
           checklist_items = [], sync_metadata = []\<rparr>,
          svc_deviceId = Some ''device_a'', isWeb = False\<rparr>\<rparr>)"
    using native_mapFirebaseToNote native_getNoteById [of 1] native_saveRemoteNote
    by (simp add: download_step_def resolveConflict_def example_note_def example_remote_note_def)
  show ?thesis
    using run realtime_matches_pull [of added example_remote native_world]
    by simp
qed

text \<open>
  Claim C6 at a failing input. The device holds no note and the remote document \<open>n1\<close>
  (created at 5, updated at 30) is pulled. The row inserted has a new id and the device's
  time as \<open>created_at\<close> and \<open>updated_at\<close>; no note is stored under \<open>n1\<close>.
\<close>

theorem download_step_insert_not_verbatim:
  "fst (getNoteById ''n1'' empty_world) = Inr None
   \<and> fst (download_step example_remote empty_world) = Inr None
   \<and> stored_row ''n1'' (snd (download_step example_remote empty_world)) = None
   \<and> map (\<lambda>r. (col_id r, col_title r, col_created_at r, col_updated_at r, col_last_sync_at r))
        (case db (database (snd (download_step example_remote empty_world))) of
           None \<Rightarrow> [] | Some d \<Rightarrow> notes_table d)
       = [(''note_1003_k3x9'', ''B'', 1002, 1002, Some 1001)]"
  by (simp add: empty_world_def stored_row_def store_defs sync_defs example_defs js_defs
      toString_1003)

lemma digits_nonempty: "digits n \<noteq> []"
  by (subst digits.simps) simp

lemma toString_nonempty: "toString i \<noteq> []"
  by (simp add: toString_def digits_nonempty)

lemma find_replaced_row:
  "find (\<lambda>r. meta_key r = k)
     (filter (\<lambda>r. meta_key r \<noteq> k) rows @ [\<lparr>meta_key = k, meta_value = v, meta_updated_at = t\<rparr>])
   = Some \<lparr>meta_key = k, meta_value = v, meta_updated_at = t\<rparr>"
  by (induction rows) auto

lemma setSyncMetadata_then_get:
  assumes "setSyncMetadata k v w = (Inr (), w')" and "v \<noteq> []"
  shows "fst (getSyncMetadata k w') = Inr (Some v)
       \<and> clock w' = clock w \<and> isWeb (database w') = isWeb (database w)
       \<and> clock_reads w' = clock_reads w + (if isWeb (database w) then 0 else 1)"
proof (cases "isWeb (database w)")
  case True
  then show ?thesis using assms
    by (auto simp: setSyncMetadata_def setSyncMetadataWeb_def getSyncMetadata_def
        getSyncMetadataWeb_def update_conv')
next
  case False
  then show ?thesis using assms find_replaced_row
    by (auto simp: setSyncMetadata_def getSyncMetadata_def date_now_def set_db_def
        split: option.splits)
qed

text \<open>
  Claim C7, as amended. When the pull step of a pass completes, the persisted watermark
  \<open>last_sync_time\<close> is the decimal text of the device clock as read after the last
  pulled note was handled, whatever the remote modification times of the pulled notes.
\<close>

theorem downloadRemoteChanges_watermark:
  assumes "fs_db (firebase w)" and "downloadRemoteChanges w = (Inr found, w')"
  shows "fst (getSyncMetadata ''last_sync_time'' w') =
           Inr (Some (toString (clock w'
              (clock_reads w' - (if isWeb (database w') then 1 else 2)))))"
proof -
  from assms obtain w3 w5 where
    set: "setSyncMetadata ''last_sync_time'' (toString (clock w3 (clock_reads w3)))
            (w3\<lparr>clock_reads := Suc (clock_reads w3)\<rparr>) = (Inr (), w5)"
    and w5: "w5 = w'"
    by (auto simp: downloadRemoteChanges_def date_now_def
        split: prod.splits sum.splits if_splits)
  from setSyncMetadata_then_get [OF set toString_nonempty] w5 show ?thesis
    by (auto split: if_splits)
qed

theorem downloadRemoteChanges_watermark_witness:
  "fs_db (firebase native_world)
   \<and> fst (downloadRemoteChanges native_world) = Inr []
   \<and> fst (getSyncMetadata ''last_sync_time'' (snd (downloadRemoteChanges native_world)))
       = Inr (Some (toString 1003))"
proof -
  have h1: "fs_db (firebase native_world)" by (simp add: native_world_def)
  have h2: "downloadRemoteChanges native_world = (Inr [], snd (downloadRemoteChanges native_world))"
    using native_downloadRemoteChanges by (simp add: prod_eq_iff)
  have reads: "clock (snd (downloadRemoteChanges native_world))
       (clock_reads (snd (downloadRemoteChanges native_world))
          - (if isWeb (database (snd (downloadRemoteChanges native_world))) then 1 else 2)) = 1003"
    by (simp add: store_defs sync_defs example_defs js_defs)
  show ?thesis
    using h1 reads native_downloadRemoteChanges downloadRemoteChanges_watermark [OF h1 h2]
    by simp
qed

text \<open>
  Claim C7 as stated (the watermark is advanced to the largest remote modification time
  among the pulled notes) fails: the one pulled document was modified at 31 and the
  watermark written is the device time 1003.
\<close>

theorem downloadRemoteChanges_watermark_counterexample:
  "map fb_lastModified (query_notes None 100 native_world) = [31]
   \<and> fst (downloadRemoteChanges native_world) = Inr []
   \<and> fst (getSyncMetadata ''last_sync_time'' (snd (downloadRemoteChanges native_world)))
       = Inr (Some ''1003'')
   \<and> fst (getSyncMetadata ''last_sync_time'' (snd (downloadRemoteChanges native_world)))
       \<noteq> Inr (Some (toString (Max (set (map fb_lastModified
               (query_notes None 100 native_world))))))"
proof -
  have "toString 31 = ''31''" by (simp add: toString_def digits.simps)
  then show ?thesis using native_pull_docs native_downloadRemoteChanges by simp
qed

section \<open>The sync pass\<close>

text \<open>
  Run one after the other, calls of \<open>syncNotes\<close> respect the flag: a call made while
  \<open>syncInProgress\<close> is set returns at once with \<open>success = false\<close> and changes nothing,
  and a call made while the flag is clear leaves it clear when it returns, also when the
  pass fails inside the \<open>try\<close> block (below, the query of the pull fails).
\<close>

lemma syncNotes_flag:
  "(syncInProgress (firebase w) \<longrightarrow>
      syncNotes w = (\<lparr>success = False, result_conflicts = []\<rparr>, w))
   \<and> (\<not> syncInProgress (firebase w) \<longrightarrow>
        \<not> syncInProgress (firebase (snd (syncNotes w))))"
  by (simp add: syncNotes_def set_syncInProgress_def split: prod.splits sum.splits)

lemma failed_pass_clears_flag:
  "fst (syncNotes unreachable_world) = \<lparr>success = False, result_conflicts = []\<rparr>
   \<and> requests (snd (syncNotes unreachable_world)) = 1
   \<and> \<not> syncInProgress (firebase (snd (syncNotes unreachable_world)))"
proof -
  have "syncNotes unreachable_world =
      (\<lparr>success = False, result_conflicts = []\<rparr>,
       set_syncInProgress False ((set_syncInProgress True unreachable_world)\<lparr>requests := 1\<rparr>))"
    using unreachable_pass
    by (simp add: syncNotes_def isOnline_db_def unreachable_world_def native_world_def)
  then show ?thesis by (simp add: set_syncInProgress_def)
qed

text \<open>
  A call that runs alone through its three pieces is \<open>syncNotes\<close>.
\<close>

lemma syncNotes_as_pieces:
  "run_schedule [0, 0, 0] ([AtGuard], w) = ([Returned (fst (syncNotes w))], snd (syncNotes w))"
  by (simp add: call_step_def syncNotes_guard_def syncNotes_online_def syncNotes_pass_def
      syncNotes_def split: prod.splits sum.splits)

text \<open>
  Claim C4 at a failing input. Two calls of \<open>syncNotes\<close> are started in the same turn
  on a device that is initialised and online, with no pass in progress. Both test the
  flag before either has set it, both enter the pass, and both complete a pass of their
  own (two queries are sent): the second call is not a no-op. When the second call
  tests the flag only after the first has set it, it does return at once with
  \<open>success = false\<close>.
\<close>

theorem overlapping_syncNotes_both_run:
  "fst (run_schedule [0, 1, 0, 1] ([AtGuard, AtGuard], quiet_world)) = [InPass, InPass]
   \<and> fst (run_schedule [0, 1, 0, 1, 0, 1] ([AtGuard, AtGuard], quiet_world))
       = [Returned \<lparr>success = True, result_conflicts = []\<rparr>,
          Returned \<lparr>success = True, result_conflicts = []\<rparr>]
   \<and> requests (snd (run_schedule [0, 1, 0, 1, 0, 1] ([AtGuard, AtGuard], quiet_world))) = 2
   \<and> fst (run_schedule [0, 0, 1] ([AtGuard, AtGuard], quiet_world))
       = [InPass, Returned \<lparr>success = False, result_conflicts = []\<rparr>]"
  by (simp add: call_defs quiet_world_def store_defs sync_defs example_defs js_defs
      toString_1000 parse_defs)

text \<open>
  The two calls of the example pass the tests of \<open>syncNotes\<close>: the service is initialised,
  no pass is in progress and the device is online.
\<close>

theorem overlapping_syncNotes_both_run_witness:
  "isInitialized (firebase quiet_world) \<and> \<not> syncInProgress (firebase quiet_world)
   \<and> isOnline_db quiet_world
   \<and> fst (run_schedule [0, 1, 0, 1] ([AtGuard, AtGuard], quiet_world)) = [InPass, InPass]"
  using overlapping_syncNotes_both_run
  by (simp add: quiet_world_def isOnline_db_def example_defs)

text \<open>
  Claim C9 at a failing input. On a web device the synced note \<open>n1\<close> is deleted (soft
  delete at time 1000, after its last sync at 10) and a pass is run. The deleted note is
  not in the dirty set, the pass succeeds without uploading it, and the remote document
  still has \<open>isDeleted = false\<close>.
\<close>

theorem web_tombstone_not_pushed:
  "map (\<lambda>n. (note_id n, isDeleted n, updatedAt n, lastSyncAt n))
        (stored_notes_web (snd (deleteNote ''n1'' web_synced_world)))
       = [(''n1'', Some True, 1000, Some 10)]
   \<and> notes_for_sync (snd (deleteNote ''n1'' web_synced_world)) = []
   \<and> success (fst (syncNotes (snd (deleteNote ''n1'' web_synced_world))))
   \<and> map_option fb_isDeleted
        (map_of (remote (snd (syncNotes (snd (deleteNote ''n1'' web_synced_world))))) ''n1'')
       = Some False"
  by (simp add: web_synced_world_def notes_for_sync_def stored_notes_web_def
      store_defs sync_defs example_defs js_defs parse_defs)

text \<open>
  The pass of the example is a real one: the service is initialised, no pass is in
  progress and the device is online, so the guard of \<open>syncNotes\<close> lets it run.
\<close>

theorem web_tombstone_not_pushed_witness:
  "isInitialized (firebase (snd (deleteNote ''n1'' web_synced_world)))
   \<and> \<not> syncInProgress (firebase (snd (deleteNote ''n1'' web_synced_world)))
   \<and> isOnline_db (snd (deleteNote ''n1'' web_synced_world))
   \<and> success (fst (syncNotes (snd (deleteNote ''n1'' web_synced_world))))
   \<and> map_option fb_isDeleted
        (map_of (remote (snd (syncNotes (snd (deleteNote ''n1'' web_synced_world))))) ''n1'')
       = Some False"
  using web_tombstone_not_pushed
  by (simp add: web_synced_world_def store_defs example_defs)

text \<open>
  The same deletion and pass on a native device: the deleted row is in the dirty set and
  the remote document gets \<open>isDeleted = true\<close>.
\<close>

lemma native_tombstone_pushed:
  "notes_for_sync (snd (deleteNote ''n1'' native_synced_world)) = [''n1'']
   \<and> success (fst (syncNotes (snd (deleteNote ''n1'' native_synced_world))))
   \<and> map_option fb_isDeleted
        (map_of (remote (snd (syncNotes (snd (deleteNote ''n1'' native_synced_world))))) ''n1'')
       = Some True"
  by (simp add: native_synced_world_def notes_for_sync_def
      store_defs sync_defs example_defs js_defs parse_defs toString_1005)

section \<open>The published sync status\<close>

lemma loadNotes_conflicts: "conflicts (snd (loadNotes (w, st))) = conflicts st"
  by (simp add: loadNotes_def split: prod.splits sum.splits)

text \<open>
  Claim C8, as amended. After \<open>performSync\<close> the conflicts of the \<open>SyncStatus\<close> are
  exactly the conflicts returned by the pass when the pass succeeded, and the conflicts
  recorded before when it did not: a successful pass replaces the recorded set.
\<close>

theorem performSync_conflicts:
  "conflicts (snd (performSync (w, st))) =
     (if success (fst (syncNotes w)) then result_conflicts (fst (syncNotes w))
      else conflicts st)"
proof -
  obtain result w1 where run: "syncNotes w = (result, w1)" by (cases "syncNotes w")
  obtain w2 st2 where load: "loadNotes (w1, st\<lparr>isSyncing := True\<rparr>) = (w2, st2)"
    by (cases "loadNotes (w1, st\<lparr>isSyncing := True\<rparr>)")
  have "conflicts st2 = conflicts st"
    using loadNotes_conflicts [of w1 "st\<lparr>isSyncing := True\<rparr>"] load by simp
  then show ?thesis using run load
    by (simp add: performSync_def date_now_def)
qed

theorem performSync_conflicts_witness:
  "success (fst (syncNotes quiet_world))
   \<and> conflicts (snd (performSync (quiet_world, example_status))) = []"
  using quiet_pass performSync_conflicts [of quiet_world example_status] by simp

text \<open>
  Claim C8 as stated (conflicts recorded before the pass for other notes are preserved)
  fails: a conflict on note \<open>n2\<close> is recorded, the pass succeeds without touching
  \<open>n2\<close> and reports no conflict, and the published status holds no conflict.
\<close>

theorem performSync_conflicts_counterexample:
  "other_conflict \<in> set (conflicts example_status)
   \<and> stored_row ''n2'' quiet_world = None
   \<and> stored_row ''n2'' (fst (performSync (quiet_world, example_status))) = None
   \<and> fst (syncNotes quiet_world) = \<lparr>success = True, result_conflicts = []\<rparr>
   \<and> other_conflict \<notin> set (conflicts (snd (performSync (quiet_world, example_status))))"
proof -
  have "conflicts (snd (performSync (quiet_world, example_status))) = []"
    by (simp add: performSync_def loadNotes_def quiet_world_def store_defs sync_defs
        example_defs js_defs example_status_def)
  moreover have "stored_row ''n2'' (fst (performSync (quiet_world, example_status))) = None"
    by (simp add: performSync_def loadNotes_def quiet_world_def store_defs sync_defs
        example_defs js_defs example_status_def stored_row_def)
  moreover have "stored_row ''n2'' quiet_world = None"
    by (simp add: quiet_world_def stored_row_def example_defs noteRow_def)
  ultimately show ?thesis using quiet_pass by (simp add: example_status_def)
qed

end
